theory Spec2Isabelle
  imports Main
begin

section \<open>JavaScript values\<close>

text \<open>
  The handlers of the CivicLens backend work on untyped JSON: request bodies, the
  classifier's parsed reply and the rows of the data store are all JavaScript values.
  An object is its list of properties in insertion order. Strings are lists of code
  units below 256; numbers are the doubles with an integer value (the code only tests a
  number for zero, prints it or hands it on; \<open>Number(...)\<close> itself is a parameter of the
  environment below).
\<close>

datatype jsval =
    Undefined
  | Null
  | Bool bool
  | Num int
  | Str string
  | Arr "jsval list"
  | Obj "(string \<times> jsval) list"

type_synonym props = "(string \<times> jsval) list"

text \<open>Truthiness, as \<open>if (v)\<close>, \<open>!v\<close>, \<open>a || b\<close> and \<open>a && b\<close> test it.\<close>

fun truthy :: "jsval \<Rightarrow> bool" where
  "truthy Undefined = False"
| "truthy Null = False"
| "truthy (Bool b) = b"
| "truthy (Num n) = (n \<noteq> 0)"
| "truthy (Str s) = (s \<noteq> [])"
| "truthy (Arr xs) = True"
| "truthy (Obj ps) = True"

definition js_or :: "jsval \<Rightarrow> jsval \<Rightarrow> jsval" where
  "js_or a b = (if truthy a then a else b)"

definition js_and :: "jsval \<Rightarrow> jsval \<Rightarrow> jsval" where
  "js_and a b = (if truthy a then b else a)"

text \<open>Property read \<open>o.k\<close> on an object: \<open>undefined\<close> when the key is absent.\<close>

definition obj_get :: "props \<Rightarrow> string \<Rightarrow> jsval" where
  "obj_get ps k = (case map_of ps k of None \<Rightarrow> Undefined | Some v \<Rightarrow> v)"

text \<open>Property write \<open>o.k = v\<close>: in place when the key exists, appended otherwise.\<close>

fun obj_set :: "string \<Rightarrow> jsval \<Rightarrow> props \<Rightarrow> props" where
  "obj_set k v [] = [(k, v)]"
| "obj_set k v (p # ps) = (if fst p = k then (k, v) # ps else p # obj_set k v ps)"

subsection \<open>Strings\<close>

text \<open>\<open>String.prototype.toLowerCase\<close> on code units below 256: A-Z and the Latin-1
  capitals U+00C0..U+00DE (without the multiplication sign U+00D7) gain bit 5.\<close>

definition toLowerCase_char :: "char \<Rightarrow> char" where
  "toLowerCase_char c =
     (let n = (of_char c :: nat) in
      if (65 \<le> n \<and> n \<le> 90) \<or> (192 \<le> n \<and> n \<le> 222 \<and> n \<noteq> 215)
      then (case c of Char b0 b1 b2 b3 b4 b5 b6 b7 \<Rightarrow> Char b0 b1 b2 b3 b4 True b6 b7)
      else c)"

definition toLowerCase :: "string \<Rightarrow> string" where
  "toLowerCase s = map toLowerCase_char s"

text \<open>The white space and line terminators of ECMAScript below 256:
  TAB, LF, VT, FF, CR, SP and NBSP.\<close>

definition is_js_space :: "char \<Rightarrow> bool" where
  "is_js_space c = ((of_char c :: nat) \<in> {9, 10, 11, 12, 13, 32, 160})"

definition trim :: "string \<Rightarrow> string" where
  "trim s = rev (dropWhile is_js_space (rev (dropWhile is_js_space s)))"

text \<open>\<open>s.replace(/[-_ ]/g, '')\<close>: every hyphen, underscore and space is deleted.\<close>

definition strip_separators :: "string \<Rightarrow> string" where
  "strip_separators s = filter (\<lambda>c. c \<noteq> CHR ''-'' \<and> c \<noteq> CHR ''_'' \<and> c \<noteq> CHR '' '') s"

text \<open>Decimal digits of a number, for \<open>String(n)\<close> and template literals
  (integers of magnitude below 10^21 print this way).\<close>

fun string_of_nat :: "nat \<Rightarrow> string" where
  "string_of_nat n =
     (if n < 10 then [''0123456789'' ! n]
      else string_of_nat (n div 10) @ [''0123456789'' ! (n mod 10)])"

declare string_of_nat.simps [simp del]

definition string_of_int :: "int \<Rightarrow> string" where
  "string_of_int i = (if i < 0 then CHR ''-'' # string_of_nat (nat (- i)) else string_of_nat (nat i))"

fun join_comma :: "string list \<Rightarrow> string" where
  "join_comma [] = []"
| "join_comma [s] = s"
| "join_comma (s # t # ss) = s @ '','' @ join_comma (t # ss)"

text \<open>\<open>String(v)\<close>. An array prints its elements joined by commas, \<open>null\<close> and
  \<open>undefined\<close> elements as the empty string; a plain object prints as
  \<open>[object Object]\<close>.\<close>

fun js_String :: "jsval \<Rightarrow> string" where
  "js_String Undefined = ''undefined''"
| "js_String Null = ''null''"
| "js_String (Bool b) = (if b then ''true'' else ''false'')"
| "js_String (Num n) = string_of_int n"
| "js_String (Str s) = s"
| "js_String (Arr xs) =
     join_comma (map (\<lambda>x. if x = Undefined \<or> x = Null then [] else js_String x) xs)"
| "js_String (Obj ps) = ''[object Object]''"

section \<open>Role normalisation (middlewares/auth.js)\<close>

datatype js_error = TypeError string | SyntaxError string | Error string

text \<open>
  \<^verbatim>\<open>
  const normalizeRole = (role) => {
    if (!role) return 'citizen';
    const r = role.toLowerCase().replace(/[-_ ]/g, '').trim();
    if (r === 'headauthority' || r === 'authorityhead' || r === 'admin') return 'head_authority';
    return 'citizen';
  };
  \<close>
  A truthy value that is not a string has no \<open>toLowerCase\<close>: the call raises a TypeError.
\<close>

definition normalizeRole :: "jsval \<Rightarrow> js_error + string" where
  "normalizeRole role =
     (if \<not> truthy role then Inr ''citizen''
      else case role of
        Str s \<Rightarrow>
          (let r = trim (strip_separators (toLowerCase s)) in
           if r = ''headauthority'' \<or> r = ''authorityhead'' \<or> r = ''admin''
           then Inr ''head_authority''
           else Inr ''citizen'')
      | _ \<Rightarrow> Inl (TypeError ''role.toLowerCase is not a function''))"

section \<open>The issue classifier (services/gemini.js)\<close>

text \<open>
  The classifier sends one fixed prompt and the image to the hosted model. The prompt
  is the template literal of the source: its lines are joined by line feeds, and the
  description is spliced in by \<open>${description}\<close>, that is by \<open>String\<close>.
\<close>

fun join_lines :: "string list \<Rightarrow> string" where
  "join_lines [] = []"
| "join_lines [l] = l"
| "join_lines (l # m # ls) = l @ [CHR 0x0A] @ join_lines (m # ls)"

definition prompt_before :: string where
  \<open>prompt_before = join_lines
     [[],
      ''      You are an AI civic assistant for the CivicLens platform.'',
      ''      Analyze the following civic issue based on the image provided and the user's description.'',
      [],
      ''      First, determine if the provided image and description are genuinely related to a civic issue.'',
      ''      If the image and description are NOT related to a civic issue (e.g., personal photos, irrelevant content),'',
      ''      return ONLY the following JSON object:'',
      ''      {'',
      ''        "error": "Image/description not related to civic issues."'',
      ''      }'',
      ''      DO NOT proceed with classification if it's not a civic issue.'',
      [],
      ''      If it IS a civic issue, proceed with the following tasks:'',
      [],
      ''      User Description: "'']\<close>

definition prompt_after :: string where
  \<open>prompt_after = join_lines
     [''"'',
      [],
      ''      Tasks:'',
      ''      1. **Analyze the image and description carefully.**'',
      ''      2. Identify the most specific type of issue from this EXACT list: ["pothole", "garbage", "damagestreetlight", "waterlog", "other"].'',
      ''         - **"pothole"**: Look for depressions or holes in the road surface.'',
      ''         - **"garbage"**: Look for waste, litter, or refuse in public areas.'',
      ''         - **"damagestreetlight"**: Look for broken, flickering, or non-functional streetlights.'',
      ''         - **"waterlog"**: Look for standing water, flooding, or blocked drainage.'',
      ''         - **"other"**: Use this ONLY if the issue clearly does not fit any of the above categories, even after thorough image analysis.'',
      ''      3. Map the identified issue_type to the correct assigned_authority based on these DETERMINISTIC rules:'',
      ''         - If issue_type is "waterlog", assigned_authority is "drainage".'',
      ''         - If issue_type is "damagestreetlight", assigned_authority is "streetlight".'',
      ''         - If issue_type is "pothole", assigned_authority is "road".'',
      ''         - If issue_type is "garbage", assigned_authority is "garbage".'',
      ''         - If issue_type is "other", assigned_authority is "head".'',
      [],
      ''      Return the result ONLY as a valid JSON object with the following keys:'',
      ''      {'',
      ''        "issue_type": "string",'',
      ''        "assigned_authority": "string"'',
      ''      }'',
      [],
      ''      Example:'',
      ''      User Description: "There's a huge hole in the road near the park."'',
      ''      Image: (Image showing a pothole)'',
      ''      Expected Output:'',
      ''      {'',
      ''        "issue_type": "pothole",'',
      ''        "assigned_authority": "road"'',
      ''      }'',
      [],
      ''      DO NOT include any extra text, explanations, or markdown. Just the raw JSON object.'',
      ''    '']\<close>

definition prompt :: "jsval \<Rightarrow> string" where
  "prompt description = prompt_before @ js_String description @ prompt_after"



text \<open>
  Obtaining the model handle (\<open>getGenerativeModel\<close>) only builds an object. What the
  classifier cannot decide itself is the environment's: the image fetch
  (\<open>fetch(imageUrl).then(r => r.arrayBuffer())\<close>), the model call
  (\<open>generateContent\<close> up to \<open>response.text()\<close>, given the prompt and the image bytes,
  whose base64 encoding is left to the callee) and \<open>JSON.parse\<close>. Each either raises or
  returns. \<open>JSON.parse\<close> is only applied to a text that starts with an opening brace,
  where it yields an object or raises a SyntaxError (\<open>None\<close>).
\<close>

record classifier_env =
  fetch :: "jsval \<Rightarrow> js_error + string"
  generateContent :: "string \<Rightarrow> string \<Rightarrow> js_error + string"
  JSON_parse :: "string \<Rightarrow> props option"

text \<open>Calls that leave the process, in the order made.\<close>

datatype call =
    FetchImage jsval
  | GenerateContent string string
  | DbInsertIssue props
  | DbSelectIssue string
  | DbUpdateIssue string props
  | DbInsertLog props
  | DbDeleteIssue string
  | DbDeleteIssues jsval

text \<open>
  \<open>text.match(/\{[\s\S]*\}/)\<close>: the match starts at the first opening brace and, the
  star being greedy, ends at the last closing brace after it; there is no match when no
  closing brace follows the first opening one.
\<close>

definition jsonMatch :: "string \<Rightarrow> string option" where
  "jsonMatch text =
     (let from_brace = dropWhile (\<lambda>c. c \<noteq> CHR ''{'') text;
          matched = rev (dropWhile (\<lambda>c. c \<noteq> CHR ''}'') (rev from_brace))
      in if matched = [] then None else Some matched)"

definition fallback_classification :: props where
  "fallback_classification = [(''issue_type'', Str ''other''), (''assigned_authority'', Str ''head'')]"

definition not_civic_issue :: "jsval \<Rightarrow> props" where
  "not_civic_issue e =
     [(''issue_type'', Str ''Not a civic issue''), (''assigned_authority'', Str ''none''), (''error'', e)]"

text \<open>The body of the \<open>try\<close> block: the value returned or the error raised, with the
  calls made up to there.\<close>

definition classify_attempt ::
  "classifier_env \<Rightarrow> jsval \<Rightarrow> jsval \<Rightarrow> (js_error + props) \<times> call list" where
  "classify_attempt env imageUrl description =
     (case fetch env imageUrl of
        Inl e \<Rightarrow> (Inl e, [FetchImage imageUrl])
      | Inr imageResp \<Rightarrow>
          (let cs = [FetchImage imageUrl, GenerateContent (prompt description) imageResp] in
           case generateContent env (prompt description) imageResp of
             Inl e \<Rightarrow> (Inl e, cs)
           | Inr text \<Rightarrow>
               (case jsonMatch text of
                  None \<Rightarrow> (Inl (Error ''Could not parse AI response as JSON''), cs)
                | Some m \<Rightarrow>
                    (case JSON_parse env m of
                       None \<Rightarrow> (Inl (SyntaxError ''Unexpected token''), cs)
                     | Some resultJson \<Rightarrow>
                         if truthy (obj_get resultJson ''error'')
                         then (Inr (not_civic_issue (obj_get resultJson ''error'')), cs)
                         else (Inr resultJson, cs)))))"

text \<open>\<open>classifyIssue\<close>: the \<open>catch\<close> turns every error into the fallback.\<close>

definition classifyIssue :: "classifier_env \<Rightarrow> jsval \<Rightarrow> jsval \<Rightarrow> props \<times> call list" where
  "classifyIssue env imageUrl description =
     (case classify_attempt env imageUrl description of
        (Inl e, cs) \<Rightarrow> (fallback_classification, cs)
      | (Inr r, cs) \<Rightarrow> (r, cs))"

text \<open>The claim's words for a failing pipeline: the image fetch raises, the model call
  raises, or the reply holds no JSON object that parses.\<close>

definition pipeline_fails :: "classifier_env \<Rightarrow> jsval \<Rightarrow> jsval \<Rightarrow> bool" where
  "pipeline_fails env imageUrl description =
     (case fetch env imageUrl of
        Inl e \<Rightarrow> True
      | Inr imageResp \<Rightarrow>
          (case generateContent env (prompt description) imageResp of
             Inl e \<Rightarrow> True
           | Inr text \<Rightarrow>
               (case jsonMatch text of
                  None \<Rightarrow> True
                | Some m \<Rightarrow> JSON_parse env m = None)))"

text \<open>Sample environments: a model that answers with one fixed text, parsed as the
  JSON object it spells.\<close>

definition reply_env :: "string \<Rightarrow> props \<Rightarrow> classifier_env" where
  "reply_env text obj =
     \<lparr> fetch = (\<lambda>url. Inr ''JPEG''),
       generateContent = (\<lambda>p image. Inr text),
       JSON_parse = (\<lambda>s. if s = text then Some obj else None) \<rparr>"


definition pothole_to_road_env :: classifier_env where
  \<open>pothole_to_road_env =
     reply_env ''{"issue_type":"pothole","assigned_authority":"road"}''
       [(''issue_type'', Str ''pothole''), (''assigned_authority'', Str ''road'')]\<close>

definition prose_reply_env :: classifier_env where
  "prose_reply_env =
     \<lparr> fetch = (\<lambda>url. Inr ''JPEG''),
       generateContent = (\<lambda>p image. Inr ''I cannot tell what this is.''),
       JSON_parse = (\<lambda>s. None) \<rparr>"

definition fetch_down_env :: classifier_env where
  "fetch_down_env =
     \<lparr> fetch = (\<lambda>url. Inl (TypeError ''fetch failed'')),
       generateContent = (\<lambda>p image. Inr ''{}''),
       JSON_parse = (\<lambda>s. Some []) \<rparr>"

definition model_down_env :: classifier_env where
  "model_down_env =
     \<lparr> fetch = (\<lambda>url. Inr ''JPEG''),
       generateContent = (\<lambda>p image. Inl (Error ''503 Service Unavailable'')),
       JSON_parse = (\<lambda>s. Some []) \<rparr>"

section \<open>Requests, responses and the data store\<close>

text \<open>
  A handler reads \<open>req.user\<close> (attached by the authentication middleware, absent
  otherwise), \<open>req.params.id\<close> and the parsed JSON body, and answers through
  \<open>res.status(code).json(obj)\<close>. Serialising an object to JSON omits the properties
  whose value is \<open>undefined\<close>; this holds for response bodies and for the payloads sent
  to the data store alike.
\<close>

record request =
  user :: "props option"
  params_id :: string
  body :: props

record response =
  status :: nat
  json :: jsval

definition json_props :: "props \<Rightarrow> props" where
  "json_props ps = filter (\<lambda>p. snd p \<noteq> Undefined) ps"

definition respond :: "nat \<Rightarrow> props \<Rightarrow> response" where
  "respond code obj = \<lparr> status = code, json = Obj (json_props obj) \<rparr>"

fun message :: "js_error \<Rightarrow> string" where
  "message (TypeError m) = m"
| "message (SyntaxError m) = m"
| "message (Error m) = m"

text \<open>
  The data store holds the tables \<open>issues\<close> and \<open>issue_logs\<close>; a row is an object. The
  world also records the calls that left the process. A call to the store is answered
  in one of four ways, chosen by the environment: it is carried out and returns its rows
  (\<open>Done\<close>), it returns an error object (\<open>Failed\<close>), it returns neither error nor rows
  (\<open>NoRows\<close>), or the client raises (\<open>Thrown\<close>). Only a call that is carried out changes
  the tables. The environment also supplies \<open>Number(...)\<close>, the handler's clock
  (\<open>new Date().toISOString()\<close>) and the identifier and creation time the store gives a
  new row.
\<close>

datatype db_outcome = Done | Failed props | NoRows | Thrown js_error

record store_env =
  toNumber :: "jsval \<Rightarrow> jsval"
  clock :: string
  new_id :: jsval
  db_now :: jsval
  insert_outcome :: db_outcome
  select_outcome :: db_outcome
  update_outcome :: db_outcome
  log_outcome :: db_outcome
  delete_outcome :: db_outcome

record world =
  issues :: "props list"
  issue_logs :: "props list"
  calls :: "call list"

definition called :: "call \<Rightarrow> world \<Rightarrow> world" where
  "called c w = w\<lparr> calls := calls w @ [c] \<rparr>"

text \<open>\<open>.eq('id', id)\<close>: the filter compares the column with the text of the URL
  parameter.\<close>

definition id_matches :: "string \<Rightarrow> props \<Rightarrow> bool" where
  "id_matches i row = (js_String (obj_get row ''id'') = i)"

definition insert_row :: "store_env \<Rightarrow> props \<Rightarrow> props" where
  "insert_row senv payload =
     (''id'', new_id senv) # json_props payload @ [(''created_at'', db_now senv)]"

definition log_row :: "store_env \<Rightarrow> props \<Rightarrow> props" where
  "log_row senv payload = json_props payload @ [(''created_at'', db_now senv)]"

text \<open>\<open>.update(patch)\<close> assigns the columns of the serialised patch, in order.\<close>

definition apply_patch :: "props \<Rightarrow> props \<Rightarrow> props" where
  "apply_patch patch row = fold (\<lambda>p r. obj_set (fst p) (snd p) r) (json_props patch) row"

definition db_update :: "string \<Rightarrow> props \<Rightarrow> props list \<Rightarrow> props list" where
  "db_update i patch rows = map (\<lambda>r. if id_matches i r then apply_patch patch r else r) rows"

definition db_updated :: "string \<Rightarrow> props \<Rightarrow> props list \<Rightarrow> props list" where
  "db_updated i patch rows = map (apply_patch patch) (filter (id_matches i) rows)"

section \<open>The issue handlers (controllers/issueController.js)\<close>

subsection \<open>POST /issues\<close>

definition missing_field :: "string \<Rightarrow> response" where
  "missing_field f = respond 400 [(''error'', Str (''Missing field: '' @ f))]"

text \<open>The \<open>catch\<close> of \<open>createIssue\<close>. What is raised there is a plain \<open>Error\<close>: it has a
  message and no \<open>status\<close>, \<open>hint\<close> or \<open>code\<close>.\<close>

definition report_failure :: "js_error \<Rightarrow> response" where
  "report_failure e =
     respond 500
       [(''error'', Str ''Failed to report issue''),
        (''details'', Str (if message e = [] then ''Internal Server Error'' else message e)),
        (''hint'', Undefined),
        (''code'', Undefined)]"

text \<open>
  \<^verbatim>\<open>
  const isManual = Boolean(
    is_manual_submission === true ||
    (manual_department && String(manual_department).trim() !== '') ||
    (manual_issue_type && String(manual_issue_type).trim() !== '')
  );
  \<close>
\<close>

definition isManual :: "jsval \<Rightarrow> jsval \<Rightarrow> jsval \<Rightarrow> bool" where
  "isManual is_manual_submission manual_department manual_issue_type =
     truthy
       (js_or
          (js_or (Bool (is_manual_submission = Bool True))
             (js_and manual_department (Bool (trim (js_String manual_department) \<noteq> []))))
          (js_and manual_issue_type (Bool (trim (js_String manual_issue_type) \<noteq> []))))"

definition issueData ::
  "store_env \<Rightarrow> jsval \<Rightarrow> props \<Rightarrow> props \<Rightarrow> props" where
  "issueData senv citizen_id b aiResult =
     (let finalDepartment = js_or (obj_get b ''manual_department'') (obj_get aiResult ''assigned_authority'');
          finalIssueType = js_or (obj_get b ''manual_issue_type'') (obj_get aiResult ''issue_type'')
      in [(''citizen_id'', citizen_id),
          (''image_url'', obj_get b ''image_url''),
          (''description'', obj_get b ''description''),
          (''location_lat'', toNumber senv (obj_get b ''location_lat'')),
          (''location_lng'', toNumber senv (obj_get b ''location_lng'')),
          (''issue_type'', finalIssueType),
          (''assigned_authority'', finalDepartment),
          (''department'', finalDepartment),
          (''ai_analysis'',
             Obj (obj_set ''is_manual''
                    (Bool (isManual (obj_get b ''is_manual_submission'')
                             (obj_get b ''manual_department'') (obj_get b ''manual_issue_type'')))
                    aiResult)),
          (''status'', Str ''reported'')])"

definition citizen_id_of :: "request \<Rightarrow> jsval" where
  "citizen_id_of req = (case user req of None \<Rightarrow> Undefined | Some u \<Rightarrow> obj_get u ''id'')"

text \<open>The insert and the answer that follows it.\<close>

definition insert_issue :: "store_env \<Rightarrow> props \<Rightarrow> world \<Rightarrow> response \<times> world" where
  "insert_issue senv payload w =
     (case insert_outcome senv of
        Failed e \<Rightarrow>
          (respond 400
             [(''error'', Str ''Database insert failed''),
              (''details'', obj_get e ''message''),
              (''hint'', obj_get e ''hint''),
              (''code'', obj_get e ''code'')],
           called (DbInsertIssue payload) w)
      | NoRows \<Rightarrow>
          (report_failure (Error ''Failed to save issue - no data returned''),
           called (DbInsertIssue payload) w)
      | Thrown e \<Rightarrow> (report_failure e, called (DbInsertIssue payload) w)
      | Done \<Rightarrow>
          (respond 201 (insert_row senv payload),
           (called (DbInsertIssue payload) w)\<lparr> issues := issues w @ [insert_row senv payload] \<rparr>))"

definition createIssue ::
  "classifier_env \<Rightarrow> store_env \<Rightarrow> request \<Rightarrow> world \<Rightarrow> response \<times> world" where
  "createIssue cenv senv req w =
     (if \<not> truthy (obj_get (body req) ''image_url'') then (missing_field ''image_url'', w)
      else if \<not> truthy (obj_get (body req) ''description'') then (missing_field ''description'', w)
      else if obj_get (body req) ''location_lat'' = Undefined \<or> obj_get (body req) ''location_lat'' = Null
      then (missing_field ''location_lat'', w)
      else if obj_get (body req) ''location_lng'' = Undefined \<or> obj_get (body req) ''location_lng'' = Null
      then (missing_field ''location_lng'', w)
      else if \<not> truthy (citizen_id_of req)
      then (respond 401 [(''error'', Str ''User session invalid'')], w)
      else
        (case classifyIssue cenv (obj_get (body req) ''image_url'') (obj_get (body req) ''description'') of
           (aiResult, cs) \<Rightarrow>
             if truthy (obj_get aiResult ''error'')
             then (respond 400
                     [(''error'', Str ''Submission not related to civic issues''),
                      (''details'', obj_get aiResult ''error'')],
                   w\<lparr> calls := calls w @ cs \<rparr>)
             else insert_issue senv (issueData senv (citizen_id_of req) (body req) aiResult)
                    (w\<lparr> calls := calls w @ cs \<rparr>)))"

text \<open>The validation of \<open>createIssue\<close> in the claim's words: the four required fields in
  order, each with the test that makes it count as missing, and the first one that
  fails.\<close>

definition coordinate_given :: "jsval \<Rightarrow> bool" where
  "coordinate_given v = (v \<noteq> Undefined \<and> v \<noteq> Null)"

definition first_missing :: "props \<Rightarrow> string option" where
  "first_missing b =
     map_option fst
       (find (\<lambda>p. \<not> snd p (obj_get b (fst p)))
          [(''image_url'', truthy), (''description'', truthy),
           (''location_lat'', coordinate_given), (''location_lng'', coordinate_given)])"

subsection \<open>PATCH /issues/:id/status\<close>

definition updateData :: "store_env \<Rightarrow> jsval \<Rightarrow> jsval \<Rightarrow> props" where
  "updateData senv new_status resolved_image_url =
     (if new_status = Str ''resolved'' \<and> truthy resolved_image_url
      then [(''status'', new_status),
            (''resolved_image_url'', resolved_image_url),
            (''resolved_at'', Str (clock senv))]
      else [(''status'', new_status)])"

definition logData :: "string \<Rightarrow> props \<Rightarrow> jsval \<Rightarrow> jsval \<Rightarrow> jsval \<Rightarrow> props" where
  "logData i oldIssue new_status changed_by resolved_image_url =
     [(''issue_id'', Str i),
      (''old_status'', obj_get oldIssue ''status''),
      (''new_status'', new_status),
      (''changed_by'', changed_by)] @
     (if new_status = Str ''resolved'' \<and> truthy resolved_image_url
      then [(''resolved_image_url'', resolved_image_url)] else [])"

definition not_found :: response where
  "not_found = respond 404 [(''error'', Str ''Issue not found'')]"

definition update_failure :: "js_error \<Rightarrow> response" where
  "update_failure e =
     respond 500
       [(''error'', Str ''Failed to update status''),
        (''details'', Str (if message e = [] then ''Internal Server Error'' else message e))]"

text \<open>Step 3 of \<open>updateStatus\<close>: the log insert inside its own \<open>try\<close>. Its result is
  not looked at and its exception is caught, so the world is all that it can change.\<close>

definition write_log :: "store_env \<Rightarrow> props \<Rightarrow> world \<Rightarrow> world" where
  "write_log senv entry w =
     (case log_outcome senv of
        Done \<Rightarrow> (called (DbInsertLog entry) w)\<lparr> issue_logs := issue_logs w @ [log_row senv entry] \<rparr>
      | Failed e \<Rightarrow> called (DbInsertLog entry) w
      | NoRows \<Rightarrow> called (DbInsertLog entry) w
      | Thrown e \<Rightarrow> called (DbInsertLog entry) w)"

text \<open>Step 2 of \<open>updateStatus\<close>, once the old row is known: the update, then the log.\<close>

definition write_status ::
  "store_env \<Rightarrow> string \<Rightarrow> props \<Rightarrow> jsval \<Rightarrow> jsval \<Rightarrow> jsval \<Rightarrow> world \<Rightarrow> response \<times> world" where
  "write_status senv i oldIssue new_status resolved_image_url changed_by w =
     (case update_outcome senv of
        Thrown e \<Rightarrow>
          (update_failure e,
           called (DbUpdateIssue i (updateData senv new_status resolved_image_url)) w)
      | Failed e \<Rightarrow>
          (respond 500
             [(''error'', Str ''Database update failed''), (''message'', obj_get e ''message'')],
           called (DbUpdateIssue i (updateData senv new_status resolved_image_url)) w)
      | NoRows \<Rightarrow>
          (not_found, called (DbUpdateIssue i (updateData senv new_status resolved_image_url)) w)
      | Done \<Rightarrow>
          (case db_updated i (updateData senv new_status resolved_image_url) (issues w) of
             [] \<Rightarrow>
               (not_found,
                (called (DbUpdateIssue i (updateData senv new_status resolved_image_url)) w)
                  \<lparr> issues := db_update i (updateData senv new_status resolved_image_url) (issues w) \<rparr>)
           | finalResult # others \<Rightarrow>
               (respond 200 finalResult,
                write_log senv (logData i oldIssue new_status changed_by resolved_image_url)
                  ((called (DbUpdateIssue i (updateData senv new_status resolved_image_url)) w)
                     \<lparr> issues := db_update i (updateData senv new_status resolved_image_url) (issues w) \<rparr>))))"

definition updateStatus :: "store_env \<Rightarrow> request \<Rightarrow> world \<Rightarrow> response \<times> world" where
  "updateStatus senv req w =
     (case user req of
        None \<Rightarrow> (update_failure (TypeError ''Cannot read properties of undefined (reading 'id')''), w)
      | Some u \<Rightarrow>
          if obj_get (body req) ''status'' \<notin> set [Str ''reported'', Str ''in_progress'', Str ''resolved'']
          then (respond 400 [(''error'', Str ''Invalid status'')], w)
          else
            (case select_outcome senv of
               Thrown e \<Rightarrow> (update_failure e, called (DbSelectIssue (params_id req)) w)
             | Failed e \<Rightarrow> (not_found, called (DbSelectIssue (params_id req)) w)
             | NoRows \<Rightarrow> (not_found, called (DbSelectIssue (params_id req)) w)
             | Done \<Rightarrow>
                 (case filter (id_matches (params_id req)) (issues w) of
                    [oldIssue] \<Rightarrow>
                      write_status senv (params_id req) oldIssue
                        (obj_get (body req) ''status'') (obj_get (body req) ''resolved_image_url'')
                        (obj_get u ''id'') (called (DbSelectIssue (params_id req)) w)
                  | _ \<Rightarrow> (not_found, called (DbSelectIssue (params_id req)) w))))"

subsection \<open>PATCH /issues/:id/reassign\<close>

text \<open>With \<open>.single()\<close> the store answers with an error unless exactly one row is
  returned; the handler raises that error and its \<open>catch\<close> answers 500.\<close>

definition reassign_failure :: "jsval \<Rightarrow> response" where
  "reassign_failure msg =
     respond 500
       [(''error'', Str ''Failed to reassign issue''),
        (''details'', js_or msg (Str ''Internal Server Error''))]"

definition reassign_patch :: "jsval \<Rightarrow> props" where
  "reassign_patch assigned_authority =
     [(''assigned_authority'', assigned_authority), (''department'', assigned_authority)]"

definition no_single_row :: jsval where
  "no_single_row = Str ''JSON object requested, multiple (or no) rows returned''"

definition reassignIssue :: "store_env \<Rightarrow> request \<Rightarrow> world \<Rightarrow> response \<times> world" where
  "reassignIssue senv req w =
     (case update_outcome senv of
        Thrown e \<Rightarrow>
          (reassign_failure (Str (message e)),
           called (DbUpdateIssue (params_id req) (reassign_patch (obj_get (body req) ''assigned_authority''))) w)
      | Failed e \<Rightarrow>
          (reassign_failure (obj_get e ''message''),
           called (DbUpdateIssue (params_id req) (reassign_patch (obj_get (body req) ''assigned_authority''))) w)
      | NoRows \<Rightarrow>
          (reassign_failure no_single_row,
           called (DbUpdateIssue (params_id req) (reassign_patch (obj_get (body req) ''assigned_authority''))) w)
      | Done \<Rightarrow>
          (case db_updated (params_id req) (reassign_patch (obj_get (body req) ''assigned_authority'')) (issues w) of
             [updatedIssue] \<Rightarrow> respond 200 updatedIssue
           | _ \<Rightarrow> reassign_failure no_single_row,
           (called (DbUpdateIssue (params_id req) (reassign_patch (obj_get (body req) ''assigned_authority''))) w)
             \<lparr> issues := db_update (params_id req) (reassign_patch (obj_get (body req) ''assigned_authority''))
                           (issues w) \<rparr>))"

subsection \<open>DELETE /issues/:id and POST /issues/bulk-delete\<close>

definition no_content :: response where
  "no_content = \<lparr> status = 204, json = Undefined \<rparr>"

definition deleteIssue :: "store_env \<Rightarrow> request \<Rightarrow> world \<Rightarrow> response \<times> world" where
  "deleteIssue senv req w =
     (case delete_outcome senv of
        Thrown e \<Rightarrow>
          (respond 500 [(''error'', Str ''Failed to delete issue'')],
           called (DbDeleteIssue (params_id req)) w)
      | Failed e \<Rightarrow>
          (respond 500 [(''error'', Str ''Database error''), (''details'', obj_get e ''message'')],
           called (DbDeleteIssue (params_id req)) w)
      | NoRows \<Rightarrow> (no_content, called (DbDeleteIssue (params_id req)) w)
      | Done \<Rightarrow>
          (no_content,
           (called (DbDeleteIssue (params_id req)) w)
             \<lparr> issues := filter (\<lambda>r. \<not> id_matches (params_id req) r) (issues w) \<rparr>))"

text \<open>\<open>.in('id', issueIds)\<close> keeps for deletion the rows whose id prints as one of the
  given values.\<close>

definition id_among :: "jsval list \<Rightarrow> props \<Rightarrow> bool" where
  "id_among ids row = (js_String (obj_get row ''id'') \<in> set (map js_String ids))"

definition delete_many :: "store_env \<Rightarrow> jsval list \<Rightarrow> world \<Rightarrow> response \<times> world" where
  "delete_many senv ids w =
     (case delete_outcome senv of
        Thrown e \<Rightarrow>
          (respond 500 [(''error'', Str ''Failed to bulk delete issues'')],
           called (DbDeleteIssues (Arr ids)) w)
      | Failed e \<Rightarrow>
          (respond 500 [(''error'', Str ''Database error''), (''details'', obj_get e ''message'')],
           called (DbDeleteIssues (Arr ids)) w)
      | NoRows \<Rightarrow> (no_content, called (DbDeleteIssues (Arr ids)) w)
      | Done \<Rightarrow>
          (no_content,
           (called (DbDeleteIssues (Arr ids)) w)
             \<lparr> issues := filter (\<lambda>r. \<not> id_among ids r) (issues w) \<rparr>))"

definition bulkDeleteIssues :: "store_env \<Rightarrow> request \<Rightarrow> world \<Rightarrow> response \<times> world" where
  "bulkDeleteIssues senv req w =
     (case obj_get (body req) ''issueIds'' of
        Arr (x # xs) \<Rightarrow> delete_many senv (x # xs) w
      | _ \<Rightarrow> (respond 400 [(''error'', Str ''Invalid or empty array of issue IDs provided'')], w))"

subsection \<open>The service as a whole\<close>

text \<open>The requests that write to the store, and a run of the service on a sequence of
  them, each with the environment it meets.\<close>

datatype operation =
    Create classifier_env store_env request
  | SetStatus store_env request
  | Reassign store_env request
  | Delete store_env request
  | BulkDelete store_env request

fun perform :: "operation \<Rightarrow> world \<Rightarrow> world" where
  "perform (Create cenv senv req) w = snd (createIssue cenv senv req w)"
| "perform (SetStatus senv req) w = snd (updateStatus senv req w)"
| "perform (Reassign senv req) w = snd (reassignIssue senv req w)"
| "perform (Delete senv req) w = snd (deleteIssue senv req w)"
| "perform (BulkDelete senv req) w = snd (bulkDeleteIssues senv req w)"

definition serve :: "operation list \<Rightarrow> world \<Rightarrow> world" where
  "serve ops w = fold perform ops w"

definition empty_world :: world where
  "empty_world = \<lparr> issues = [], issue_logs = [], calls = [] \<rparr>"

definition dept_synced :: "props \<Rightarrow> bool" where
  "dept_synced row = (obj_get row ''department'' = obj_get row ''assigned_authority'')"

section \<open>Sample requests and worlds\<close>

text \<open>Concrete inputs on which the theorems below are exercised.\<close>

definition quiet_store :: store_env where
  "quiet_store =
     \<lparr> toNumber = (\<lambda>v. v),
       clock = ''2026-03-01T10:00:00.000Z'',
       new_id = Str ''i-2'',
       db_now = Str ''2026-03-01T10:00:00+00:00'',
       insert_outcome = Done,
       select_outcome = Done,
       update_outcome = Done,
       log_outcome = Done,
       delete_outcome = Done \<rparr>"

definition log_down_store :: store_env where
  "log_down_store =
     quiet_store\<lparr> log_outcome := Failed [(''message'', Str ''relation issue_logs does not exist'')] \<rparr>"

definition citizen :: props where
  "citizen = [(''id'', Str ''u-7''), (''email'', Str ''ann@example.org''), (''role'', Str ''citizen'')]"

definition officer :: props where
  "officer = [(''id'', Str ''a-3''), (''email'', Str ''bo@example.org''), (''role'', Str ''head_authority'')]"

definition report_body :: props where
  "report_body =
     [(''image_url'', Str ''https://cdn.example/p.jpg''),
      (''description'', Str ''hole''),
      (''location_lat'', Num 12),
      (''location_lng'', Num 77)]"

definition report_request :: request where
  "report_request = \<lparr> user = Some citizen, params_id = [], body = report_body \<rparr>"

definition drainage_request :: request where
  "drainage_request =
     \<lparr> user = Some citizen, params_id = [],
       body = report_body @ [(''manual_department'', Str ''drainage'')] \<rparr>"


definition no_latitude_request :: request where
  "no_latitude_request =
     \<lparr> user = Some citizen, params_id = [],
       body = [(''image_url'', Str ''https://cdn.example/p.jpg''),
               (''description'', Str ''hole''),
               (''location_lng'', Num 77)] \<rparr>"

definition not_civic_env :: classifier_env where
  \<open>not_civic_env =
     reply_env ''{"error":"Image/description not related to civic issues."}''
       [(''error'', Str ''Image/description not related to civic issues.'')]\<close>

definition pothole_row :: props where
  "pothole_row =
     [(''id'', Str ''i-1''),
      (''citizen_id'', Str ''u-7''),
      (''image_url'', Str ''https://cdn.example/p.jpg''),
      (''description'', Str ''hole''),
      (''location_lat'', Num 12),
      (''location_lng'', Num 77),
      (''issue_type'', Str ''pothole''),
      (''assigned_authority'', Str ''road''),
      (''department'', Str ''road''),
      (''ai_analysis'',
         Obj [(''issue_type'', Str ''pothole''), (''assigned_authority'', Str ''road''),
              (''is_manual'', Bool False)]),
      (''status'', Str ''reported''),
      (''created_at'', Str ''2026-02-27T08:30:00+00:00'')]"

definition one_issue_world :: world where
  "one_issue_world = \<lparr> issues = [pothole_row], issue_logs = [], calls = [] \<rparr>"

definition progress_request :: request where
  "progress_request =
     \<lparr> user = Some officer, params_id = ''i-1'', body = [(''status'', Str ''in_progress'')] \<rparr>"

definition resolve_request :: request where
  "resolve_request =
     \<lparr> user = Some officer, params_id = ''i-1'',
       body = [(''status'', Str ''resolved''),
               (''resolved_image_url'', Str ''https://cdn.example/fixed.jpg'')] \<rparr>"

definition resolve_without_image_request :: request where
  "resolve_without_image_request =
     \<lparr> user = Some officer, params_id = ''i-1'', body = [(''status'', Str ''resolved'')] \<rparr>"

definition reassign_request :: request where
  "reassign_request =
     \<lparr> user = Some officer, params_id = ''i-1'', body = [(''assigned_authority'', Str ''drainage'')] \<rparr>"


definition drainage_outcome :: "response \<times> world" where
  "drainage_outcome = createIssue pothole_to_road_env quiet_store drainage_request empty_world"

definition log_down_outcome :: "response \<times> world" where
  "log_down_outcome = updateStatus log_down_store progress_request one_issue_world"


definition resolve_outcome :: "response \<times> world" where
  "resolve_outcome = updateStatus quiet_store resolve_request one_issue_world"

definition resolve_without_image_outcome :: "response \<times> world" where
  "resolve_without_image_outcome =
     updateStatus quiet_store resolve_without_image_request one_issue_world"

section \<open>Properties of role normalisation\<close>

text \<open>
  Claim C3, as stated, decides on the lower-cased input with hyphens, underscores and
  spaces removed, and sends every other input to citizen. The code also trims that
  string: the role "admin" followed by a line feed is not one of the three names after
  lower-casing and stripping, yet it is normalised to head_authority.
\<close>

theorem normalizeRole_untrimmed_counterexample:
  "normalizeRole (Str (''admin'' @ [CHR 0x0A])) = Inr ''head_authority'' \<and>
   strip_separators (toLowerCase (''admin'' @ [CHR 0x0A]))
     \<notin> {''headauthority'', ''authorityhead'', ''admin''}"
  by (simp add: normalizeRole_def trim_def strip_separators_def toLowerCase_def
      toLowerCase_char_def is_js_space_def)

text \<open>
  Claim C3, amended: role normalisation is total on strings and on null or missing
  input, and its result is citizen or head_authority. A string maps to head_authority
  exactly when its lower-cased form with hyphens, underscores and spaces removed and
  surrounding white space trimmed is headauthority, authorityhead or admin; every other
  string, the empty string, null and undefined map to citizen. "Admin",
  "head-authority" and "Authority Head" give head_authority; "", null and "resident"
  give citizen.
\<close>

theorem normalizeRole_total:
  "(\<exists>r. normalizeRole (Str s) = Inr r \<and> r \<in> {''citizen'', ''head_authority''} \<and>
        (r = ''head_authority'') =
          (trim (strip_separators (toLowerCase s))
             \<in> {''headauthority'', ''authorityhead'', ''admin''})) \<and>
   normalizeRole Null = Inr ''citizen'' \<and>
   normalizeRole Undefined = Inr ''citizen'' \<and>
   normalizeRole (Str ''Admin'') = Inr ''head_authority'' \<and>
   normalizeRole (Str ''head-authority'') = Inr ''head_authority'' \<and>
   normalizeRole (Str ''Authority Head'') = Inr ''head_authority'' \<and>
   normalizeRole (Str '''') = Inr ''citizen'' \<and>
   normalizeRole (Str ''resident'') = Inr ''citizen''"
proof -
  have general: "\<exists>r. normalizeRole (Str s) = Inr r \<and> r \<in> {''citizen'', ''head_authority''} \<and>
        (r = ''head_authority'') =
          (trim (strip_separators (toLowerCase s))
             \<in> {''headauthority'', ''authorityhead'', ''admin''})"
    by (cases "s = []")
       (simp_all add: normalizeRole_def trim_def strip_separators_def toLowerCase_def Let_def)
  have examples:
    "normalizeRole (Str ''Admin'') = Inr ''head_authority''"
    "normalizeRole (Str ''head-authority'') = Inr ''head_authority''"
    "normalizeRole (Str ''Authority Head'') = Inr ''head_authority''"
    "normalizeRole (Str ''resident'') = Inr ''citizen''"
    by (simp_all add: normalizeRole_def trim_def strip_separators_def toLowerCase_def
        toLowerCase_char_def is_js_space_def)
  have absent:
    "normalizeRole Null = Inr ''citizen''"
    "normalizeRole Undefined = Inr ''citizen''"
    "normalizeRole (Str '''') = Inr ''citizen''"
    by (simp_all add: normalizeRole_def)
  from general examples absent show ?thesis by blast
qed

section \<open>Properties of the classifier\<close>

text \<open>A match of the regular expression starts with an opening brace and ends with a
  closing one, which is why \<open>JSON.parse\<close> can only answer it with an object.\<close>

lemma jsonMatch_braces:
  assumes "jsonMatch reply = Some m"
  shows "m \<noteq> [] \<and> hd m = CHR ''{'' \<and> last m = CHR ''}''"
proof -
  let ?fb = "dropWhile (\<lambda>c. c \<noteq> CHR ''{'') reply"
  let ?upto = "dropWhile (\<lambda>c. c \<noteq> CHR ''}'') (rev ?fb)"
  from assms have m: "m = rev ?upto" and ne: "m \<noteq> []"
    by (auto simp: jsonMatch_def Let_def split: if_splits)
  from m ne have rest: "?upto \<noteq> []" by simp
  from rest have "hd ?upto = CHR ''}''"
    using hd_dropWhile [of "\<lambda>c. c \<noteq> CHR ''}''" "rev ?fb"] by simp
  with m rest have stops: "last m = CHR ''}''"
    by (simp add: last_rev)
  have fb: "?fb \<noteq> []"
  proof
    assume "?fb = []"
    then have "?upto = []" by (simp only: rev.simps dropWhile.simps)
    with rest show False by contradiction
  qed
  then have starts: "hd ?fb = CHR ''{''"
    using hd_dropWhile [of "\<lambda>c. c \<noteq> CHR ''{''" reply] by simp
  have "rev ?fb = takeWhile (\<lambda>c. c \<noteq> CHR ''}'') (rev ?fb) @ ?upto"
    by simp
  then have "?fb = rev ?upto @ rev (takeWhile (\<lambda>c. c \<noteq> CHR ''}'') (rev ?fb))"
    by (metis rev_append rev_rev_ident)
  with m have "?fb = m @ rev (takeWhile (\<lambda>c. c \<noteq> CHR ''}'') (rev ?fb))"
    by simp
  with ne have "hd ?fb = hd m"
    by (metis hd_append2)
  with starts stops ne show ?thesis by simp
qed







text \<open>
  Claim C2: when the pipeline fails (the image fetch raises, the model call raises, or
  the reply has no JSON object that parses), \<open>classifyIssue\<close> still returns, and what
  it returns is exactly the fallback, issue type other with department head.
\<close>

theorem classifyIssue_fallback:
  assumes "pipeline_fails env imageUrl description"
  shows "fst (classifyIssue env imageUrl description)
           = [(''issue_type'', Str ''other''), (''assigned_authority'', Str ''head'')]"
  using assms
  by (auto simp: pipeline_fails_def classifyIssue_def classify_attempt_def Let_def
      fallback_classification_def split: sum.splits option.splits)

theorem classifyIssue_fallback_witness:
  "pipeline_fails prose_reply_env (Str ''https://cdn.example/p.jpg'') (Str ''hole'') \<and>
   pipeline_fails fetch_down_env (Str ''https://cdn.example/p.jpg'') (Str ''hole'') \<and>
   pipeline_fails model_down_env (Str ''https://cdn.example/p.jpg'') (Str ''hole'') \<and>
   fst (classifyIssue prose_reply_env (Str ''https://cdn.example/p.jpg'') (Str ''hole''))
     = [(''issue_type'', Str ''other''), (''assigned_authority'', Str ''head'')]"
proof -
  have a: "pipeline_fails prose_reply_env (Str ''https://cdn.example/p.jpg'') (Str ''hole'')"
    by (simp add: pipeline_fails_def prose_reply_env_def jsonMatch_def)
  have b: "pipeline_fails fetch_down_env (Str ''https://cdn.example/p.jpg'') (Str ''hole'')"
    by (simp add: pipeline_fails_def fetch_down_env_def)
  have c: "pipeline_fails model_down_env (Str ''https://cdn.example/p.jpg'') (Str ''hole'')"
    by (simp add: pipeline_fails_def model_down_env_def)
  from a b c classifyIssue_fallback [OF a] show ?thesis by simp
qed

section \<open>Objects, patches and rows\<close>

lemma map_of_obj_set: "map_of (obj_set k v ps) = (map_of ps)(k \<mapsto> v)"
  by (induction ps) (auto simp: fun_eq_iff)

lemma obj_get_obj_set: "obj_get (obj_set k v ps) c = (if c = k then v else obj_get ps c)"
  by (simp add: obj_get_def map_of_obj_set)

lemma map_of_json_props_None: "map_of ps k = None \<Longrightarrow> map_of (json_props ps) k = None"
  by (induction ps) (auto simp: json_props_def split: if_splits)

text \<open>Dropping the undefined properties of an object literal does not change what a
  property read returns.\<close>

lemma obj_get_json_props:
  "distinct (map fst ps) \<Longrightarrow> obj_get (json_props ps) k = obj_get ps k"
proof (induction ps)
  case Nil
  then show ?case by (simp add: json_props_def)
next
  case (Cons p ps)
  show ?case
  proof (cases "fst p = k")
    case True
    with Cons.prems have "map_of ps k = None"
      by (auto simp: map_of_eq_None_iff)
    then have "map_of (json_props ps) k = None" by (rule map_of_json_props_None)
    with True show ?thesis
      by (cases p) (auto simp: obj_get_def json_props_def)
  next
    case False
    with Cons show ?thesis
      by (cases p) (auto simp: obj_get_def json_props_def)
  qed
qed

lemma obj_get_fold_other:
  "c \<notin> fst ` set qs \<Longrightarrow>
   obj_get (fold (\<lambda>p r. obj_set (fst p) (snd p) r) qs row) c = obj_get row c"
  by (induction qs arbitrary: row) (auto simp: obj_get_obj_set)

lemma obj_get_apply_patch_other:
  "c \<notin> fst ` set patch \<Longrightarrow> obj_get (apply_patch patch row) c = obj_get row c"
  unfolding apply_patch_def
  by (rule obj_get_fold_other) (auto simp: json_props_def)

lemma truthy_defined: "truthy v \<Longrightarrow> v \<noteq> Undefined"
  by auto

lemma obj_get_append_other:
  "k \<noteq> k' \<Longrightarrow> obj_get (ps @ [(k', v)]) k = obj_get ps k"
  by (simp add: obj_get_def map_add_def split: option.splits)

lemma obj_get_insert_row:
  assumes "distinct (map fst payload)" and "k \<noteq> ''id''" and "k \<noteq> ''created_at''"
  shows "obj_get (insert_row senv payload) k = obj_get payload k"
proof -
  have "obj_get (insert_row senv payload) k = obj_get (json_props payload @ [(''created_at'', db_now senv)]) k"
    using assms(2) by (simp add: insert_row_def obj_get_def)
  also have "\<dots> = obj_get (json_props payload) k"
    using assms(3) by (rule obj_get_append_other)
  also have "\<dots> = obj_get payload k"
    using assms(1) by (rule obj_get_json_props)
  finally show ?thesis .
qed

lemma issueData_keys:
  "map fst (issueData senv cid b ai) =
     [''citizen_id'', ''image_url'', ''description'', ''location_lat'', ''location_lng'',
      ''issue_type'', ''assigned_authority'', ''department'', ''ai_analysis'', ''status'']"
  by (simp add: issueData_def Let_def)

lemma issueData_distinct: "distinct (map fst (issueData senv cid b ai))"
  by (simp add: issueData_keys)

lemma issueData_department:
  "obj_get (issueData senv cid b ai) ''department'' =
     js_or (obj_get b ''manual_department'') (obj_get ai ''assigned_authority'')"
  by (simp add: issueData_def Let_def obj_get_def)

lemma issueData_assigned_authority:
  "obj_get (issueData senv cid b ai) ''assigned_authority'' =
     js_or (obj_get b ''manual_department'') (obj_get ai ''assigned_authority'')"
  by (simp add: issueData_def Let_def obj_get_def)




section \<open>Properties of issue creation\<close>

lemma first_missing_None:
  "first_missing b = None \<longleftrightarrow>
     truthy (obj_get b ''image_url'') \<and> truthy (obj_get b ''description'') \<and>
     obj_get b ''location_lat'' \<noteq> Undefined \<and> obj_get b ''location_lat'' \<noteq> Null \<and>
     obj_get b ''location_lng'' \<noteq> Undefined \<and> obj_get b ''location_lng'' \<noteq> Null"
  by (auto simp: first_missing_def coordinate_given_def)

lemma createIssue_validated:
  assumes "first_missing (body req) = None" and "truthy (citizen_id_of req)"
  shows "createIssue cenv senv req w =
     (case classifyIssue cenv (obj_get (body req) ''image_url'') (obj_get (body req) ''description'') of
        (aiResult, cs) \<Rightarrow>
          if truthy (obj_get aiResult ''error'')
          then (respond 400
                  [(''error'', Str ''Submission not related to civic issues''),
                   (''details'', obj_get aiResult ''error'')],
                w\<lparr> calls := calls w @ cs \<rparr>)
          else insert_issue senv (issueData senv (citizen_id_of req) (body req) aiResult)
                 (w\<lparr> calls := calls w @ cs \<rparr>))"
  using assms by (simp add: createIssue_def first_missing_None)

text \<open>
  Claim C6: a create-issue request that lacks image_url, description, location_lat or
  location_lng (the first two count as missing when falsy, the coordinates when
  undefined or null) is answered 400 with the message "Missing field: " followed by the
  first such field in that order. The world is returned as it was: no call to the
  classifier (no image fetch, no model call) and none to the store is made.
\<close>

theorem createIssue_missing_field:
  assumes "first_missing (body req) = Some f"
  shows "createIssue cenv senv req w =
           (\<lparr> status = 400, json = Obj [(''error'', Str (''Missing field: '' @ f))] \<rparr>, w) \<and>
         f \<in> set [''image_url'', ''description'', ''location_lat'', ''location_lng'']"
  using assms
  by (auto simp: first_missing_def coordinate_given_def createIssue_def missing_field_def
      respond_def json_props_def split: if_splits)

theorem createIssue_missing_field_witness:
  "first_missing (body no_latitude_request) = Some ''location_lat'' \<and>
   createIssue pothole_to_road_env quiet_store no_latitude_request empty_world =
     (\<lparr> status = 400, json = Obj [(''error'', Str ''Missing field: location_lat'')] \<rparr>, empty_world)"
proof -
  have missing: "first_missing (body no_latitude_request) = Some ''location_lat''"
    by (simp add: first_missing_def no_latitude_request_def obj_get_def coordinate_given_def)
  from createIssue_missing_field [OF missing, of pothole_to_road_env quiet_store empty_world] missing
  show ?thesis by simp
qed

text \<open>
  Claim C5: when a request has passed validation and carries a session, and the
  classification result has an error field that is set (the not-a-civic-issue signal),
  the answer is 400 with the classifier's error text as details; the issues and the
  log table are unchanged, and the only calls made are the classifier's own, so no
  insert reaches the store.
\<close>

theorem createIssue_not_civic:
  assumes "first_missing (body req) = None"
    and "truthy (citizen_id_of req)"
    and "classifyIssue cenv (obj_get (body req) ''image_url'') (obj_get (body req) ''description'')
           = (aiResult, cs)"
    and "truthy (obj_get aiResult ''error'')"
  shows "fst (createIssue cenv senv req w) =
           \<lparr> status = 400,
             json = Obj [(''error'', Str ''Submission not related to civic issues''),
                         (''details'', obj_get aiResult ''error'')] \<rparr> \<and>
         issues (snd (createIssue cenv senv req w)) = issues w \<and>
         issue_logs (snd (createIssue cenv senv req w)) = issue_logs w \<and>
         calls (snd (createIssue cenv senv req w)) = calls w @ cs \<and>
         (\<forall>payload. DbInsertIssue payload \<notin> set cs)"
proof -
  have "obj_get aiResult ''error'' \<noteq> Undefined"
    using assms(4) by (rule truthy_defined)
  then have answer: "createIssue cenv senv req w =
      (\<lparr> status = 400,
         json = Obj [(''error'', Str ''Submission not related to civic issues''),
                     (''details'', obj_get aiResult ''error'')] \<rparr>,
       w\<lparr> calls := calls w @ cs \<rparr>)"
    using assms by (simp add: createIssue_validated respond_def json_props_def)
  have "snd (classifyIssue cenv (obj_get (body req) ''image_url'') (obj_get (body req) ''description'')) = cs"
    using assms(3) by simp
  then have "\<forall>payload. DbInsertIssue payload \<notin> set cs"
    by (auto simp: classifyIssue_def classify_attempt_def Let_def
        split: sum.splits option.splits if_splits)
  with answer show ?thesis by simp
qed

theorem createIssue_not_civic_witness:
  "fst (classifyIssue not_civic_env (Str ''https://cdn.example/p.jpg'') (Str ''hole'')) =
     [(''issue_type'', Str ''Not a civic issue''), (''assigned_authority'', Str ''none''),
      (''error'', Str ''Image/description not related to civic issues.'')] \<and>
   fst (createIssue not_civic_env quiet_store report_request empty_world) =
     \<lparr> status = 400,
       json = Obj [(''error'', Str ''Submission not related to civic issues''),
                   (''details'', Str ''Image/description not related to civic issues.'')] \<rparr> \<and>
   issues (snd (createIssue not_civic_env quiet_store report_request empty_world)) = []"
proof -
  have valid: "first_missing (body report_request) = None"
    by (simp add: first_missing_None report_request_def report_body_def obj_get_def)
  have session: "truthy (citizen_id_of report_request)"
    by (simp add: citizen_id_of_def report_request_def citizen_def obj_get_def)
  have url: "obj_get (body report_request) ''image_url'' = Str ''https://cdn.example/p.jpg''"
    and descr: "obj_get (body report_request) ''description'' = Str ''hole''"
    by (simp_all add: report_request_def report_body_def obj_get_def)
  have signal: "classifyIssue not_civic_env (Str ''https://cdn.example/p.jpg'') (Str ''hole'') =
      (not_civic_issue (Str ''Image/description not related to civic issues.''),
       [FetchImage (Str ''https://cdn.example/p.jpg''),
        GenerateContent (prompt (Str ''hole'')) ''JPEG''])"
    by (simp add: classifyIssue_def classify_attempt_def not_civic_env_def reply_env_def
        jsonMatch_def obj_get_def)
  have err: "truthy (obj_get (not_civic_issue (Str ''Image/description not related to civic issues.'')) ''error'')"
    by (simp add: not_civic_issue_def obj_get_def)
  from createIssue_not_civic [OF valid session signal [folded url descr] err,
      of quiet_store empty_world] signal
  show ?thesis by (simp add: not_civic_issue_def obj_get_def empty_world_def)
qed




section \<open>Properties of status updates\<close>

lemma status_respond: "status (respond code obj) = code"
  by (simp add: respond_def)

lemma db_update_length: "length (db_update i patch rows) = length rows"
  by (simp add: db_update_def)

lemma db_update_nth:
  "n < length rows \<Longrightarrow>
   db_update i patch rows ! n =
     (if id_matches i (rows ! n) then apply_patch patch (rows ! n) else rows ! n)"
  by (simp add: db_update_def)

text \<open>Whatever happens, the issues table after \<open>updateStatus\<close> is the old one, or the
  old one with the patch applied to the rows of the given id.\<close>

lemma updateStatus_issues:
  "issues (snd (updateStatus senv req w)) = issues w \<or>
   issues (snd (updateStatus senv req w)) =
     db_update (params_id req)
       (updateData senv (obj_get (body req) ''status'') (obj_get (body req) ''resolved_image_url''))
       (issues w)"
  by (simp add: updateStatus_def write_status_def write_log_def called_def
      split: option.split db_outcome.split list.split)

lemma apply_patch_updateData_frame:
  assumes "c \<noteq> ''status''" and "c \<noteq> ''resolved_image_url''" and "c \<noteq> ''resolved_at''"
  shows "obj_get (apply_patch (updateData senv st img) row) c = obj_get row c"
  using assms by (intro obj_get_apply_patch_other) (auto simp: updateData_def)

lemma apply_patch_status_only:
  assumes "\<not> (st = Str ''resolved'' \<and> truthy img)" and "c \<noteq> ''status''"
  shows "obj_get (apply_patch (updateData senv st img) row) c = obj_get row c"
  using assms by (intro obj_get_apply_patch_other) (auto simp: updateData_def)

lemma apply_patch_resolved:
  assumes "st = Str ''resolved''" and "truthy img"
  shows "obj_get (apply_patch (updateData senv st img) row) ''status'' = Str ''resolved'' \<and>
         obj_get (apply_patch (updateData senv st img) row) ''resolved_image_url'' = img \<and>
         obj_get (apply_patch (updateData senv st img) row) ''resolved_at'' = Str (clock senv)"
proof -
  have "img \<noteq> Undefined" using assms(2) by (rule truthy_defined)
  with assms show ?thesis
    by (simp add: apply_patch_def updateData_def json_props_def obj_get_obj_set)
qed

lemma write_log_calls: "calls (write_log senv entry w) = calls w @ [DbInsertLog entry]"
  by (simp add: write_log_def called_def split: db_outcome.split)

lemma write_log_issues: "issues (write_log senv entry w) = issues w"
  by (simp add: write_log_def called_def split: db_outcome.split)

lemma write_log_issue_logs:
  "issue_logs (write_log senv entry w) =
     (if log_outcome senv = Done then issue_logs w @ [log_row senv entry] else issue_logs w)"
  by (simp add: write_log_def called_def split: db_outcome.split)



text \<open>A status update that answers 200 found exactly one row, made the update and
  went on to the log insert; it answers with the updated row.\<close>

lemma write_status_success:
  assumes "status (fst (write_status senv i old st img cb w)) = 200"
  shows "\<exists>finalResult others.
           db_updated i (updateData senv st img) (issues w) = finalResult # others \<and>
           write_status senv i old st img cb w =
             (respond 200 finalResult,
              write_log senv (logData i old st cb img)
                ((called (DbUpdateIssue i (updateData senv st img)) w)
                   \<lparr> issues := db_update i (updateData senv st img) (issues w) \<rparr>))"
  using assms
  by (cases "update_outcome senv")
     (auto simp: write_status_def status_respond not_found_def update_failure_def
      split: list.splits)

lemma updateStatus_success:
  assumes "status (fst (updateStatus senv req w)) = 200"
  shows "\<exists>u oldIssue finalResult others.
           user req = Some u \<and>
           filter (id_matches (params_id req)) (issues w) = [oldIssue] \<and>
           db_updated (params_id req)
             (updateData senv (obj_get (body req) ''status'') (obj_get (body req) ''resolved_image_url''))
             (issues w) = finalResult # others \<and>
           updateStatus senv req w =
             (respond 200 finalResult,
              write_log senv
                (logData (params_id req) oldIssue (obj_get (body req) ''status'') (obj_get u ''id'')
                   (obj_get (body req) ''resolved_image_url''))
                ((called
                    (DbUpdateIssue (params_id req)
                       (updateData senv (obj_get (body req) ''status'')
                          (obj_get (body req) ''resolved_image_url'')))
                    (called (DbSelectIssue (params_id req)) w))
                   \<lparr> issues :=
                       db_update (params_id req)
                         (updateData senv (obj_get (body req) ''status'')
                            (obj_get (body req) ''resolved_image_url''))
                         (issues w) \<rparr>))"
proof -
  let ?i = "params_id req"
  let ?st = "obj_get (body req) ''status''"
  let ?img = "obj_get (body req) ''resolved_image_url''"
  from assms obtain u where u: "user req = Some u"
    by (cases "user req") (auto simp: updateStatus_def update_failure_def status_respond)
  from assms u have valid: "?st \<in> set [Str ''reported'', Str ''in_progress'', Str ''resolved'']"
    by (auto simp: updateStatus_def status_respond split: if_splits)
  from assms u valid have sel: "select_outcome senv = Done"
    by (cases "select_outcome senv")
       (auto simp: updateStatus_def update_failure_def status_respond not_found_def)
  from assms u valid sel obtain oldIssue where
    old: "filter (id_matches ?i) (issues w) = [oldIssue]"
    by (auto simp: updateStatus_def status_respond not_found_def split: list.splits)
  from u valid sel old have run: "updateStatus senv req w =
      write_status senv ?i oldIssue ?st ?img (obj_get u ''id'') (called (DbSelectIssue ?i) w)"
    by (simp add: updateStatus_def)
  with assms have "status (fst (write_status senv ?i oldIssue ?st ?img (obj_get u ''id'')
      (called (DbSelectIssue ?i) w))) = 200"
    by simp
  from write_status_success [OF this] obtain finalResult others where
    "db_updated ?i (updateData senv ?st ?img) (issues (called (DbSelectIssue ?i) w))
       = finalResult # others"
    and "write_status senv ?i oldIssue ?st ?img (obj_get u ''id'') (called (DbSelectIssue ?i) w) =
      (respond 200 finalResult,
       write_log senv (logData ?i oldIssue ?st (obj_get u ''id'') ?img)
         ((called (DbUpdateIssue ?i (updateData senv ?st ?img)) (called (DbSelectIssue ?i) w))
            \<lparr> issues := db_update ?i (updateData senv ?st ?img)
                          (issues (called (DbSelectIssue ?i) w)) \<rparr>))"
    by blast
  with u old run show ?thesis
    by (simp add: called_def)
qed

lemma updateStatus_length:
  "length (issues (snd (updateStatus senv req w))) = length (issues w)"
  using updateStatus_issues [of senv req w] by (auto simp: db_update_length)

lemma updateStatus_row_frame:
  assumes "n < length (issues w)"
    and "c \<noteq> ''status''" and "c \<noteq> ''resolved_image_url''" and "c \<noteq> ''resolved_at''"
  shows "obj_get (issues (snd (updateStatus senv req w)) ! n) c = obj_get (issues w ! n) c"
  using updateStatus_issues [of senv req w] assms
  by (auto simp: db_update_nth apply_patch_updateData_frame)

lemma updateStatus_row_status_only:
  assumes "n < length (issues w)"
    and "\<not> (obj_get (body req) ''status'' = Str ''resolved'' \<and>
             truthy (obj_get (body req) ''resolved_image_url''))"
    and "c \<noteq> ''status''"
  shows "obj_get (issues (snd (updateStatus senv req w)) ! n) c = obj_get (issues w ! n) c"
  using updateStatus_issues [of senv req w] assms
  by (auto simp: db_update_nth apply_patch_status_only)

lemma updateStatus_success_world:
  assumes "status (fst (updateStatus senv req w)) = 200"
  shows "\<exists>u oldIssue.
           user req = Some u \<and>
           filter (id_matches (params_id req)) (issues w) = [oldIssue] \<and>
           issues (snd (updateStatus senv req w)) =
             db_update (params_id req)
               (updateData senv (obj_get (body req) ''status'') (obj_get (body req) ''resolved_image_url''))
               (issues w) \<and>
           calls (snd (updateStatus senv req w)) =
             calls w @
             [DbSelectIssue (params_id req),
              DbUpdateIssue (params_id req)
                (updateData senv (obj_get (body req) ''status'') (obj_get (body req) ''resolved_image_url'')),
              DbInsertLog
                (logData (params_id req) oldIssue (obj_get (body req) ''status'') (obj_get u ''id'')
                   (obj_get (body req) ''resolved_image_url''))] \<and>
           issue_logs (snd (updateStatus senv req w)) =
             (if log_outcome senv = Done
              then issue_logs w @
                   [log_row senv
                      (logData (params_id req) oldIssue (obj_get (body req) ''status'') (obj_get u ''id'')
                         (obj_get (body req) ''resolved_image_url''))]
              else issue_logs w)"
proof -
  from updateStatus_success [OF assms] obtain u oldIssue finalResult others where
    u: "user req = Some u"
    and old: "filter (id_matches (params_id req)) (issues w) = [oldIssue]"
    and run: "updateStatus senv req w =
             (respond 200 finalResult,
              write_log senv
                (logData (params_id req) oldIssue (obj_get (body req) ''status'') (obj_get u ''id'')
                   (obj_get (body req) ''resolved_image_url''))
                ((called
                    (DbUpdateIssue (params_id req)
                       (updateData senv (obj_get (body req) ''status'')
                          (obj_get (body req) ''resolved_image_url'')))
                    (called (DbSelectIssue (params_id req)) w))
                   \<lparr> issues :=
                       db_update (params_id req)
                         (updateData senv (obj_get (body req) ''status'')
                            (obj_get (body req) ''resolved_image_url''))
                         (issues w) \<rparr>))"
    by blast
  show ?thesis
    apply (rule exI [of _ u])
    apply (rule exI [of _ oldIssue])
    apply (simp add: u old run write_log_issues write_log_calls write_log_issue_logs called_def)
    done
qed

text \<open>The sample updates, evaluated.\<close>

lemma one_issue_world_rows:
  "length (issues one_issue_world) = 1" "issues one_issue_world ! 0 = pothole_row"
  "issue_logs one_issue_world = []"
  by (simp_all add: one_issue_world_def)

lemma pothole_row_matches: "filter (id_matches ''i-1'') (issues one_issue_world) = [pothole_row]"
  by (simp add: one_issue_world_def id_matches_def pothole_row_def obj_get_def)

lemma resolve_outcome_status: "status (fst resolve_outcome) = 200"
  by (simp add: resolve_outcome_def updateStatus_def resolve_request_def obj_get_def
      quiet_store_def called_def pothole_row_matches [unfolded one_issue_world_def, simplified]
      one_issue_world_def write_status_def db_updated_def status_respond)


lemma log_down_outcome_status: "status (fst log_down_outcome) = 200"
  by (simp add: log_down_outcome_def updateStatus_def progress_request_def obj_get_def
      log_down_store_def quiet_store_def called_def
      pothole_row_matches [unfolded one_issue_world_def, simplified]
      one_issue_world_def write_status_def db_updated_def status_respond)

text \<open>
  Claim C7: a status update never writes one of resolved_image_url and resolved_at
  without the other, and writes them only when the new status is resolved. In every
  row, after any status update, either both fields are what they were, or the new
  status is resolved, a resolved image was supplied and the row now holds that image
  and the handler's timestamp. So resolving without an image leaves resolved_at as it
  was. When the update succeeds, the store received one update call whose patch is the
  status alone or the status with both fields; resolving with an image then gives the
  row of that id both fields.
\<close>

theorem updateStatus_resolution_fields:
  "length (issues (snd (updateStatus senv req w))) = length (issues w) \<and>
   (\<forall>n<length (issues w).
      (obj_get (issues (snd (updateStatus senv req w)) ! n) ''resolved_image_url''
         = obj_get (issues w ! n) ''resolved_image_url'' \<and>
       obj_get (issues (snd (updateStatus senv req w)) ! n) ''resolved_at''
         = obj_get (issues w ! n) ''resolved_at'') \<or>
      (obj_get (body req) ''status'' = Str ''resolved'' \<and>
       truthy (obj_get (body req) ''resolved_image_url'') \<and>
       id_matches (params_id req) (issues w ! n) \<and>
       obj_get (issues (snd (updateStatus senv req w)) ! n) ''status'' = Str ''resolved'' \<and>
       obj_get (issues (snd (updateStatus senv req w)) ! n) ''resolved_image_url''
         = obj_get (body req) ''resolved_image_url'' \<and>
       obj_get (issues (snd (updateStatus senv req w)) ! n) ''resolved_at'' = Str (clock senv))) \<and>
   (status (fst (updateStatus senv req w)) = 200 \<longrightarrow>
      (\<exists>entry.
         calls (snd (updateStatus senv req w)) =
           calls w @
           [DbSelectIssue (params_id req),
            DbUpdateIssue (params_id req)
              (if obj_get (body req) ''status'' = Str ''resolved'' \<and>
                  truthy (obj_get (body req) ''resolved_image_url'')
               then [(''status'', obj_get (body req) ''status''),
                     (''resolved_image_url'', obj_get (body req) ''resolved_image_url''),
                     (''resolved_at'', Str (clock senv))]
               else [(''status'', obj_get (body req) ''status'')]),
            DbInsertLog entry]) \<and>
      (obj_get (body req) ''status'' = Str ''resolved'' \<and>
       truthy (obj_get (body req) ''resolved_image_url'') \<longrightarrow>
         (\<exists>n<length (issues w).
            id_matches (params_id req) (issues w ! n) \<and>
            obj_get (issues (snd (updateStatus senv req w)) ! n) ''resolved_image_url''
              = obj_get (body req) ''resolved_image_url'' \<and>
            obj_get (issues (snd (updateStatus senv req w)) ! n) ''resolved_at''
              = Str (clock senv))))"
proof (intro conjI allI impI)
  show "length (issues (snd (updateStatus senv req w))) = length (issues w)"
    by (rule updateStatus_length)
next
  fix n assume n: "n < length (issues w)"
  let ?st = "obj_get (body req) ''status''"
  let ?img = "obj_get (body req) ''resolved_image_url''"
  show "(obj_get (issues (snd (updateStatus senv req w)) ! n) ''resolved_image_url''
         = obj_get (issues w ! n) ''resolved_image_url'' \<and>
       obj_get (issues (snd (updateStatus senv req w)) ! n) ''resolved_at''
         = obj_get (issues w ! n) ''resolved_at'') \<or>
      (?st = Str ''resolved'' \<and> truthy ?img \<and>
       id_matches (params_id req) (issues w ! n) \<and>
       obj_get (issues (snd (updateStatus senv req w)) ! n) ''status'' = Str ''resolved'' \<and>
       obj_get (issues (snd (updateStatus senv req w)) ! n) ''resolved_image_url'' = ?img \<and>
       obj_get (issues (snd (updateStatus senv req w)) ! n) ''resolved_at'' = Str (clock senv))"
  proof (cases "?st = Str ''resolved'' \<and> truthy ?img")
    case False
    with n show ?thesis
      by (simp add: updateStatus_row_status_only)
  next
    case True
    from updateStatus_issues [of senv req w] show ?thesis
    proof
      assume "issues (snd (updateStatus senv req w)) = issues w"
      then show ?thesis by simp
    next
      assume upd: "issues (snd (updateStatus senv req w)) =
        db_update (params_id req) (updateData senv ?st ?img) (issues w)"
      show ?thesis
      proof (cases "id_matches (params_id req) (issues w ! n)")
        case False
        with n upd show ?thesis by (simp add: db_update_nth)
      next
        case matched: True
        from True have "?st = Str ''resolved''" and "truthy ?img" by simp_all
        from apply_patch_resolved [OF this, of senv "issues w ! n"] True matched n upd
        show ?thesis by (simp add: db_update_nth)
      qed
    qed
  qed
next
  assume ok: "status (fst (updateStatus senv req w)) = 200"
  from updateStatus_success_world [OF ok]
  show "\<exists>entry.
         calls (snd (updateStatus senv req w)) =
           calls w @
           [DbSelectIssue (params_id req),
            DbUpdateIssue (params_id req)
              (if obj_get (body req) ''status'' = Str ''resolved'' \<and>
                  truthy (obj_get (body req) ''resolved_image_url'')
               then [(''status'', obj_get (body req) ''status''),
                     (''resolved_image_url'', obj_get (body req) ''resolved_image_url''),
                     (''resolved_at'', Str (clock senv))]
               else [(''status'', obj_get (body req) ''status'')]),
            DbInsertLog entry]"
    unfolding updateData_def by blast
next
  let ?st = "obj_get (body req) ''status''"
  let ?img = "obj_get (body req) ''resolved_image_url''"
  assume ok: "status (fst (updateStatus senv req w)) = 200"
    and res: "?st = Str ''resolved'' \<and> truthy ?img"
  from updateStatus_success_world [OF ok] obtain oldIssue where
    old: "filter (id_matches (params_id req)) (issues w) = [oldIssue]"
    and upd: "issues (snd (updateStatus senv req w)) =
        db_update (params_id req) (updateData senv ?st ?img) (issues w)"
    by blast
  from old have "oldIssue \<in> set (filter (id_matches (params_id req)) (issues w))"
    by simp
  then have "oldIssue \<in> set (issues w)" and m: "id_matches (params_id req) oldIssue"
    by simp_all
  then obtain n where n: "n < length (issues w)" and at: "issues w ! n = oldIssue"
    by (auto simp: in_set_conv_nth)
  from res have "?st = Str ''resolved''" and "truthy ?img" by simp_all
  from apply_patch_resolved [OF this, of senv oldIssue] n at m upd
  have "id_matches (params_id req) (issues w ! n) \<and>
        obj_get (issues (snd (updateStatus senv req w)) ! n) ''resolved_image_url'' = ?img \<and>
        obj_get (issues (snd (updateStatus senv req w)) ! n) ''resolved_at'' = Str (clock senv)"
    by (simp add: db_update_nth)
  with n show "\<exists>n<length (issues w).
            id_matches (params_id req) (issues w ! n) \<and>
            obj_get (issues (snd (updateStatus senv req w)) ! n) ''resolved_image_url'' = ?img \<and>
            obj_get (issues (snd (updateStatus senv req w)) ! n) ''resolved_at'' = Str (clock senv)"
    by blast
qed

theorem updateStatus_resolution_fields_witness:
  "status (fst resolve_outcome) = 200 \<and>
   obj_get (issues (snd resolve_outcome) ! 0) ''resolved_image_url''
     = Str ''https://cdn.example/fixed.jpg'' \<and>
   obj_get (issues (snd resolve_outcome) ! 0) ''resolved_at'' = Str ''2026-03-01T10:00:00.000Z'' \<and>
   obj_get (issues (snd resolve_without_image_outcome) ! 0) ''resolved_at'' = Undefined"
proof -
  note with_image = updateStatus_resolution_fields [of quiet_store resolve_request one_issue_world]
  note without = updateStatus_resolution_fields
      [of quiet_store resolve_without_image_request one_issue_world]
  have st: "obj_get (body resolve_request) ''status'' = Str ''resolved''"
    and img: "obj_get (body resolve_request) ''resolved_image_url'' = Str ''https://cdn.example/fixed.jpg''"
    and no_img: "obj_get (body resolve_without_image_request) ''resolved_image_url'' = Undefined"
    by (simp_all add: resolve_request_def resolve_without_image_request_def obj_get_def)
  have clk: "clock quiet_store = ''2026-03-01T10:00:00.000Z''"
    by (simp add: quiet_store_def)
  have ok: "status (fst (updateStatus quiet_store resolve_request one_issue_world)) = 200"
    using resolve_outcome_status by (simp add: resolve_outcome_def)
  have res: "obj_get (body resolve_request) ''status'' = Str ''resolved'' \<and>
      truthy (obj_get (body resolve_request) ''resolved_image_url'')"
    by (simp add: st img)
  from with_image ok res obtain n where
    n: "n < length (issues one_issue_world)"
    and image: "obj_get (issues (snd (updateStatus quiet_store resolve_request one_issue_world)) ! n)
        ''resolved_image_url'' = obj_get (body resolve_request) ''resolved_image_url''"
    and stamp: "obj_get (issues (snd (updateStatus quiet_store resolve_request one_issue_world)) ! n)
        ''resolved_at'' = Str (clock quiet_store)"
    by blast
  from n have "n = 0" by (simp add: one_issue_world_rows)
  with image stamp have a: "obj_get (issues (snd resolve_outcome) ! 0) ''resolved_image_url''
       = Str ''https://cdn.example/fixed.jpg'' \<and>
     obj_get (issues (snd resolve_outcome) ! 0) ''resolved_at'' = Str ''2026-03-01T10:00:00.000Z''"
    by (simp add: resolve_outcome_def clk img)
  from without [THEN conjunct2, THEN conjunct1, rule_format, of 0]
  have "obj_get (issues (snd resolve_without_image_outcome) ! 0) ''resolved_at''
      = obj_get (issues one_issue_world ! 0) ''resolved_at''"
    by (simp add: one_issue_world_rows no_img resolve_without_image_outcome_def)
  then have b: "obj_get (issues (snd resolve_without_image_outcome) ! 0) ''resolved_at'' = Undefined"
    by (simp add: one_issue_world_rows pothole_row_def obj_get_def)
  from a b resolve_outcome_status show ?thesis by simp
qed




text \<open>
  Claim C10: a status update changes no row count and, in every row, no field other
  than status, resolved_image_url and resolved_at; unless it resolves with an image it
  changes no field other than status. In particular citizen_id, image_url,
  description, location_lat, location_lng, issue_type, assigned_authority, department,
  ai_analysis and created_at are as they were.
\<close>

theorem updateStatus_frame:
  "length (issues (snd (updateStatus senv req w))) = length (issues w) \<and>
   (\<forall>n<length (issues w). \<forall>c.
      c \<notin> {''status'', ''resolved_image_url'', ''resolved_at''} \<longrightarrow>
      obj_get (issues (snd (updateStatus senv req w)) ! n) c = obj_get (issues w ! n) c) \<and>
   (\<not> (obj_get (body req) ''status'' = Str ''resolved'' \<and>
        truthy (obj_get (body req) ''resolved_image_url'')) \<longrightarrow>
    (\<forall>n<length (issues w). \<forall>c.
       c \<noteq> ''status'' \<longrightarrow>
       obj_get (issues (snd (updateStatus senv req w)) ! n) c = obj_get (issues w ! n) c)) \<and>
   (\<forall>n<length (issues w).
      \<forall>c\<in>set [''citizen_id'', ''image_url'', ''description'', ''location_lat'', ''location_lng'',
               ''issue_type'', ''assigned_authority'', ''department'', ''ai_analysis'',
               ''created_at''].
        obj_get (issues (snd (updateStatus senv req w)) ! n) c = obj_get (issues w ! n) c)"
proof (intro conjI allI impI ballI)
  show "length (issues (snd (updateStatus senv req w))) = length (issues w)"
    by (rule updateStatus_length)
next
  fix n c
  assume "n < length (issues w)" and "c \<notin> {''status'', ''resolved_image_url'', ''resolved_at''}"
  then show "obj_get (issues (snd (updateStatus senv req w)) ! n) c = obj_get (issues w ! n) c"
    by (simp add: updateStatus_row_frame)
next
  fix n c
  assume "\<not> (obj_get (body req) ''status'' = Str ''resolved'' \<and>
        truthy (obj_get (body req) ''resolved_image_url''))"
    and "n < length (issues w)" and "c \<noteq> ''status''"
  then show "obj_get (issues (snd (updateStatus senv req w)) ! n) c = obj_get (issues w ! n) c"
    by (simp add: updateStatus_row_status_only)
next
  fix n c
  assume n: "n < length (issues w)"
    and c: "c \<in> set [''citizen_id'', ''image_url'', ''description'', ''location_lat'', ''location_lng'',
               ''issue_type'', ''assigned_authority'', ''department'', ''ai_analysis'',
               ''created_at'']"
  from c have "c \<noteq> ''status''" and "c \<noteq> ''resolved_image_url''" and "c \<noteq> ''resolved_at''"
    by auto
  with n show "obj_get (issues (snd (updateStatus senv req w)) ! n) c = obj_get (issues w ! n) c"
    by (rule updateStatus_row_frame)
qed

theorem updateStatus_frame_witness:
  "status (fst resolve_outcome) = 200 \<and>
   length (issues (snd resolve_outcome)) = 1 \<and>
   obj_get (issues (snd resolve_outcome) ! 0) ''description'' = Str ''hole'' \<and>
   obj_get (issues (snd resolve_outcome) ! 0) ''department'' = Str ''road'' \<and>
   obj_get (issues (snd resolve_outcome) ! 0) ''created_at'' = Str ''2026-02-27T08:30:00+00:00''"
proof -
  note frame = updateStatus_frame [of quiet_store resolve_request one_issue_world]
  from frame have len: "length (issues (snd resolve_outcome)) = 1"
    by (simp add: resolve_outcome_def one_issue_world_rows)
  have same: "obj_get (issues (snd resolve_outcome) ! 0) c = obj_get pothole_row c"
    if "c \<notin> {''status'', ''resolved_image_url'', ''resolved_at''}" for c
    using frame [THEN conjunct2, THEN conjunct1, rule_format, of 0 c] that
    by (simp add: resolve_outcome_def one_issue_world_rows)
  have before: "obj_get pothole_row ''description'' = Str ''hole''"
    "obj_get pothole_row ''department'' = Str ''road''"
    "obj_get pothole_row ''created_at'' = Str ''2026-02-27T08:30:00+00:00''"
    by (simp_all add: pothole_row_def obj_get_def)
  have "obj_get (issues (snd resolve_outcome) ! 0) ''description'' = Str ''hole''"
    "obj_get (issues (snd resolve_outcome) ! 0) ''department'' = Str ''road''"
    "obj_get (issues (snd resolve_outcome) ! 0) ''created_at'' = Str ''2026-02-27T08:30:00+00:00''"
    by (simp_all add: same before)
  with len resolve_outcome_status show ?thesis by simp
qed

section \<open>The department and its mirror\<close>

lemma insert_row_synced: "dept_synced (insert_row senv (issueData senv cid b ai))"
  by (simp add: dept_synced_def obj_get_insert_row issueData_distinct issueData_department
      issueData_assigned_authority)

lemma issueData_synced: "dept_synced (issueData senv cid b ai)"
  by (simp add: dept_synced_def issueData_department issueData_assigned_authority)

lemma classifyIssue_calls_no_insert:
  "DbInsertIssue payload \<notin> set (snd (classifyIssue cenv url d))"
  by (auto simp: classifyIssue_def classify_attempt_def Let_def
      split: sum.splits option.splits if_splits)

lemma insert_issue_world:
  "issues (snd (insert_issue senv payload w)) = issues w \<or>
   issues (snd (insert_issue senv payload w)) = issues w @ [insert_row senv payload]"
  by (cases "insert_outcome senv") (simp_all add: insert_issue_def called_def)

lemma insert_issue_calls:
  "calls (snd (insert_issue senv payload w)) = calls w @ [DbInsertIssue payload]"
  by (cases "insert_outcome senv") (simp_all add: insert_issue_def called_def)

text \<open>What \<open>createIssue\<close> does to the world: nothing, the classifier's calls alone, or
  these followed by the insert of the issue data.\<close>

lemma createIssue_world:
  "snd (createIssue cenv senv req w) = w \<or>
   (issues (snd (createIssue cenv senv req w)) = issues w \<and>
    calls (snd (createIssue cenv senv req w)) =
      calls w @ snd (classifyIssue cenv (obj_get (body req) ''image_url'') (obj_get (body req) ''description''))) \<or>
   (\<exists>ai.
      (issues (snd (createIssue cenv senv req w)) = issues w \<or>
       issues (snd (createIssue cenv senv req w)) =
         issues w @ [insert_row senv (issueData senv (citizen_id_of req) (body req) ai)]) \<and>
      calls (snd (createIssue cenv senv req w)) =
        calls w @ snd (classifyIssue cenv (obj_get (body req) ''image_url'') (obj_get (body req) ''description''))
          @ [DbInsertIssue (issueData senv (citizen_id_of req) (body req) ai)])"
proof (cases "first_missing (body req) = None \<and> truthy (citizen_id_of req)")
  case False
  then have "snd (createIssue cenv senv req w) = w"
    by (auto simp: createIssue_def first_missing_None)
  then show ?thesis by simp
next
  case True
  obtain ai cs where c: "classifyIssue cenv (obj_get (body req) ''image_url'')
      (obj_get (body req) ''description'') = (ai, cs)"
    by (cases "classifyIssue cenv (obj_get (body req) ''image_url'') (obj_get (body req) ''description'')")
  show ?thesis
  proof (cases "truthy (obj_get ai ''error'')")
    case rejected: True
    with True c show ?thesis by (simp add: createIssue_validated)
  next
    case False
    with True c have run: "createIssue cenv senv req w =
        insert_issue senv (issueData senv (citizen_id_of req) (body req) ai) (w\<lparr> calls := calls w @ cs \<rparr>)"
      by (simp add: createIssue_validated)
    from insert_issue_world [of senv "issueData senv (citizen_id_of req) (body req) ai"
        "w\<lparr> calls := calls w @ cs \<rparr>"]
      insert_issue_calls [of senv "issueData senv (citizen_id_of req) (body req) ai"
        "w\<lparr> calls := calls w @ cs \<rparr>"]
    have "(issues (snd (createIssue cenv senv req w)) = issues w \<or>
       issues (snd (createIssue cenv senv req w)) =
         issues w @ [insert_row senv (issueData senv (citizen_id_of req) (body req) ai)]) \<and>
      calls (snd (createIssue cenv senv req w)) =
        calls w @ snd (classifyIssue cenv (obj_get (body req) ''image_url'') (obj_get (body req) ''description''))
          @ [DbInsertIssue (issueData senv (citizen_id_of req) (body req) ai)]"
      by (simp add: run c)
    then show ?thesis by blast
  qed
qed

lemma createIssue_issues:
  "issues (snd (createIssue cenv senv req w)) = issues w \<or>
   (\<exists>row. issues (snd (createIssue cenv senv req w)) = issues w @ [row] \<and> dept_synced row)"
  using createIssue_world [of cenv senv req w] insert_row_synced by metis

lemma createIssue_payload_synced:
  assumes "DbInsertIssue payload \<in> set (calls (snd (createIssue cenv senv req w)))"
  shows "DbInsertIssue payload \<in> set (calls w) \<or> dept_synced payload"
  using createIssue_world [of cenv senv req w] assms
    classifyIssue_calls_no_insert [of payload cenv "obj_get (body req) ''image_url''"
      "obj_get (body req) ''description''"]
  by (auto simp: issueData_synced)

lemma apply_patch_reassign:
  "apply_patch (reassign_patch a) row = row \<or> dept_synced (apply_patch (reassign_patch a) row)"
  by (cases "a = Undefined")
     (simp_all add: apply_patch_def reassign_patch_def json_props_def dept_synced_def
        obj_get_obj_set)

lemma apply_patch_reassign_synced:
  "dept_synced row \<Longrightarrow> dept_synced (apply_patch (reassign_patch a) row)"
  using apply_patch_reassign [of a row] by auto

lemma db_update_reassign_nth:
  "n < length rows \<Longrightarrow>
   db_update i (reassign_patch a) rows ! n = rows ! n \<or>
   dept_synced (db_update i (reassign_patch a) rows ! n)"
  using apply_patch_reassign [of a "rows ! n"] by (auto simp: db_update_nth)

lemma reassignIssue_issues:
  "issues (snd (reassignIssue senv req w)) = issues w \<or>
   issues (snd (reassignIssue senv req w)) =
     db_update (params_id req) (reassign_patch (obj_get (body req) ''assigned_authority'')) (issues w)"
  by (cases "update_outcome senv") (simp_all add: reassignIssue_def called_def)

lemma reassignIssue_calls:
  "calls (snd (reassignIssue senv req w)) =
     calls w @
     [DbUpdateIssue (params_id req)
        [(''assigned_authority'', obj_get (body req) ''assigned_authority''),
         (''department'', obj_get (body req) ''assigned_authority'')]]"
  by (cases "update_outcome senv") (simp_all add: reassignIssue_def called_def reassign_patch_def)

lemma reassignIssue_rows:
  "length (issues (snd (reassignIssue senv req w))) = length (issues w) \<and>
   (\<forall>n<length (issues w).
      issues (snd (reassignIssue senv req w)) ! n = issues w ! n \<or>
      dept_synced (issues (snd (reassignIssue senv req w)) ! n))"
proof -
  from reassignIssue_issues [of senv req w] show ?thesis
  proof
    assume "issues (snd (reassignIssue senv req w)) = issues w"
    then show ?thesis by simp
  next
    assume "issues (snd (reassignIssue senv req w)) =
      db_update (params_id req) (reassign_patch (obj_get (body req) ''assigned_authority'')) (issues w)"
    then show ?thesis
      by (simp add: db_update_length db_update_reassign_nth)
  qed
qed

lemma apply_patch_updateData_synced:
  "dept_synced row \<Longrightarrow> dept_synced (apply_patch (updateData senv st img) row)"
  by (simp add: dept_synced_def apply_patch_updateData_frame)

lemma deleteIssue_issues:
  "set (issues (snd (deleteIssue senv req w))) \<subseteq> set (issues w)"
  by (cases "delete_outcome senv") (auto simp: deleteIssue_def called_def)

lemma bulkDeleteIssues_issues:
  "set (issues (snd (bulkDeleteIssues senv req w))) \<subseteq> set (issues w)"
proof (cases "\<exists>x xs. obj_get (body req) ''issueIds'' = Arr (x # xs)")
  case True
  then obtain x xs where "obj_get (body req) ''issueIds'' = Arr (x # xs)" by blast
  then show ?thesis
    by (cases "delete_outcome senv") (auto simp: bulkDeleteIssues_def delete_many_def called_def)
next
  case False
  then have "snd (bulkDeleteIssues senv req w) = w"
    by (auto simp: bulkDeleteIssues_def split: jsval.splits list.splits)
  then show ?thesis by simp
qed

text \<open>Every request of the service keeps the two columns equal in all rows.\<close>

lemma perform_synced:
  assumes "\<forall>r\<in>set (issues w). dept_synced r"
  shows "\<forall>r\<in>set (issues (perform operation w)). dept_synced r"
proof (cases operation)
  case (Create cenv senv req)
  with assms createIssue_issues [of cenv senv req w] show ?thesis by auto
next
  case (SetStatus senv req)
  from updateStatus_issues [of senv req w] show ?thesis
  proof
    assume "issues (snd (updateStatus senv req w)) = issues w"
    with assms SetStatus show ?thesis by simp
  next
    assume "issues (snd (updateStatus senv req w)) =
      db_update (params_id req)
        (updateData senv (obj_get (body req) ''status'') (obj_get (body req) ''resolved_image_url''))
        (issues w)"
    with assms SetStatus show ?thesis
      by (auto simp: db_update_def apply_patch_updateData_synced)
  qed
next
  case (Reassign senv req)
  from reassignIssue_issues [of senv req w] show ?thesis
  proof
    assume "issues (snd (reassignIssue senv req w)) = issues w"
    with assms Reassign show ?thesis by simp
  next
    assume "issues (snd (reassignIssue senv req w)) =
      db_update (params_id req) (reassign_patch (obj_get (body req) ''assigned_authority'')) (issues w)"
    with assms Reassign show ?thesis
      by (auto simp: db_update_def apply_patch_reassign_synced)
  qed
next
  case (Delete senv req)
  with assms deleteIssue_issues [of senv req w] show ?thesis by auto
next
  case (BulkDelete senv req)
  with assms bulkDeleteIssues_issues [of senv req w] show ?thesis by auto
qed

lemma serve_synced:
  "\<forall>r\<in>set (issues w). dept_synced r \<Longrightarrow> \<forall>r\<in>set (issues (serve ops w)). dept_synced r"
  unfolding serve_def
proof (induction ops arbitrary: w)
  case Nil
  then show ?case by simp
next
  case (Cons operation ops)
  from Cons.prems have "\<forall>r\<in>set (issues (perform operation w)). dept_synced r"
    by (rule perform_synced)
  then have "\<forall>r\<in>set (issues (fold perform ops (perform operation w))). dept_synced r"
    by (rule Cons.IH)
  then show ?case by simp
qed

lemma drainage_outcome_rows:
  "length (issues (snd drainage_outcome)) = 1"
  "obj_get (issues (snd drainage_outcome) ! 0) ''department'' = Str ''drainage''"
  by (simp_all add: drainage_outcome_def createIssue_def drainage_request_def
      report_body_def obj_get_def citizen_id_of_def citizen_def classifyIssue_def
      classify_attempt_def pothole_to_road_env_def reply_env_def jsonMatch_def
      insert_issue_def quiet_store_def called_def empty_world_def
      insert_row_def json_props_def issueData_def js_or_def Let_def)

text \<open>
  Claim C9: the two operations that write assigned_authority or department write the
  same value to both. The issue data that \<open>createIssue\<close> sends to the store has equal
  department and assigned_authority, and so has the row it adds; \<open>reassignIssue\<close> sends
  one patch that gives both columns the supplied value, and every row it changes has
  them equal afterwards. Hence the equality, once true of all rows, stays true under
  any sequence of requests, and holds of every row of a store that the service filled
  from empty.
\<close>

theorem department_mirrors_assigned_authority:
  "(issues (snd (createIssue cenv senv req w)) = issues w \<or>
    (\<exists>row. issues (snd (createIssue cenv senv req w)) = issues w @ [row] \<and> dept_synced row)) \<and>
   (\<forall>payload. DbInsertIssue payload \<in> set (calls (snd (createIssue cenv senv req w))) \<longrightarrow>
      DbInsertIssue payload \<in> set (calls w) \<or>
      obj_get payload ''department'' = obj_get payload ''assigned_authority'') \<and>
   calls (snd (reassignIssue senv' req' w)) =
     calls w @
     [DbUpdateIssue (params_id req')
        [(''assigned_authority'', obj_get (body req') ''assigned_authority''),
         (''department'', obj_get (body req') ''assigned_authority'')]] \<and>
   length (issues (snd (reassignIssue senv' req' w))) = length (issues w) \<and>
   (\<forall>n<length (issues w).
      issues (snd (reassignIssue senv' req' w)) ! n = issues w ! n \<or>
      obj_get (issues (snd (reassignIssue senv' req' w)) ! n) ''department''
        = obj_get (issues (snd (reassignIssue senv' req' w)) ! n) ''assigned_authority'') \<and>
   ((\<forall>r\<in>set (issues w). dept_synced r) \<longrightarrow>
    (\<forall>r\<in>set (issues (serve ops w)).
       obj_get r ''department'' = obj_get r ''assigned_authority'')) \<and>
   (\<forall>r\<in>set (issues (serve ops empty_world)).
      obj_get r ''department'' = obj_get r ''assigned_authority'')"
proof (intro conjI)
  show "issues (snd (createIssue cenv senv req w)) = issues w \<or>
    (\<exists>row. issues (snd (createIssue cenv senv req w)) = issues w @ [row] \<and> dept_synced row)"
    by (rule createIssue_issues)
  show "\<forall>payload. DbInsertIssue payload \<in> set (calls (snd (createIssue cenv senv req w))) \<longrightarrow>
      DbInsertIssue payload \<in> set (calls w) \<or>
      obj_get payload ''department'' = obj_get payload ''assigned_authority''"
    using createIssue_payload_synced [of _ cenv senv req w] by (auto simp: dept_synced_def)
  show "calls (snd (reassignIssue senv' req' w)) =
     calls w @
     [DbUpdateIssue (params_id req')
        [(''assigned_authority'', obj_get (body req') ''assigned_authority''),
         (''department'', obj_get (body req') ''assigned_authority'')]]"
    by (rule reassignIssue_calls)
  show "length (issues (snd (reassignIssue senv' req' w))) = length (issues w)"
    using reassignIssue_rows [of senv' req' w] by simp
  show "\<forall>n<length (issues w).
      issues (snd (reassignIssue senv' req' w)) ! n = issues w ! n \<or>
      obj_get (issues (snd (reassignIssue senv' req' w)) ! n) ''department''
        = obj_get (issues (snd (reassignIssue senv' req' w)) ! n) ''assigned_authority''"
    using reassignIssue_rows [of senv' req' w] by (simp add: dept_synced_def)
  show "(\<forall>r\<in>set (issues w). dept_synced r) \<longrightarrow>
    (\<forall>r\<in>set (issues (serve ops w)).
       obj_get r ''department'' = obj_get r ''assigned_authority'')"
    using serve_synced [of w ops] by (simp add: dept_synced_def)
  show "\<forall>r\<in>set (issues (serve ops empty_world)).
      obj_get r ''department'' = obj_get r ''assigned_authority''"
    using serve_synced [of empty_world ops] by (simp add: dept_synced_def empty_world_def)
qed

theorem department_mirrors_assigned_authority_witness:
  "dept_synced pothole_row \<and>
   obj_get (issues (serve [Reassign quiet_store reassign_request] one_issue_world) ! 0) ''department''
     = Str ''drainage'' \<and>
   obj_get (issues (serve [Reassign quiet_store reassign_request] one_issue_world) ! 0)
     ''assigned_authority'' = Str ''drainage'' \<and>
   obj_get (issues (serve [Create pothole_to_road_env quiet_store drainage_request] empty_world) ! 0)
     ''assigned_authority'' = Str ''drainage''"
proof -
  have before: "dept_synced pothole_row"
    by (simp add: dept_synced_def pothole_row_def obj_get_def)
  then have all: "\<forall>r\<in>set (issues one_issue_world). dept_synced r"
    by (simp add: one_issue_world_def)
  have rows: "issues (serve [Reassign quiet_store reassign_request] one_issue_world) =
      [apply_patch (reassign_patch (Str ''drainage'')) pothole_row]"
    by (simp add: serve_def reassignIssue_def quiet_store_def called_def reassign_request_def
        obj_get_def db_update_def pothole_row_matches [unfolded one_issue_world_def, simplified]
        one_issue_world_def id_matches_def pothole_row_def)
  have dept: "obj_get (apply_patch (reassign_patch (Str ''drainage'')) pothole_row) ''department''
      = Str ''drainage''"
    by (simp add: apply_patch_def reassign_patch_def json_props_def obj_get_obj_set)
  note claim = department_mirrors_assigned_authority
      [of pothole_to_road_env quiet_store drainage_request one_issue_world
          quiet_store reassign_request "[Reassign quiet_store reassign_request]"]
  from claim all have "\<forall>r\<in>set (issues (serve [Reassign quiet_store reassign_request] one_issue_world)).
      obj_get r ''department'' = obj_get r ''assigned_authority''"
    by blast
  with rows dept have a:
    "obj_get (issues (serve [Reassign quiet_store reassign_request] one_issue_world) ! 0) ''department''
       = Str ''drainage''"
    "obj_get (issues (serve [Reassign quiet_store reassign_request] one_issue_world) ! 0)
       ''assigned_authority'' = Str ''drainage''"
    by simp_all
  note claim' = department_mirrors_assigned_authority
      [of pothole_to_road_env quiet_store drainage_request empty_world
          quiet_store reassign_request "[Create pothole_to_road_env quiet_store drainage_request]"]
  have created: "length (issues (snd drainage_outcome)) = 1"
    "obj_get (issues (snd drainage_outcome) ! 0) ''department'' = Str ''drainage''"
    by (rule drainage_outcome_rows)+
  have served: "serve [Create pothole_to_road_env quiet_store drainage_request] empty_world
      = snd drainage_outcome"
    by (simp add: serve_def drainage_outcome_def)
  from claim' have "\<forall>r\<in>set (issues (snd drainage_outcome)).
      obj_get r ''department'' = obj_get r ''assigned_authority''"
    unfolding served by blast
  moreover from created(1) have "issues (snd drainage_outcome) ! 0 \<in> set (issues (snd drainage_outcome))"
    by simp
  ultimately have b: "obj_get (issues (snd drainage_outcome) ! 0) ''assigned_authority'' = Str ''drainage''"
    using created(2) by simp
  from before a b served show ?thesis by simp
qed

end
